theory Spec2Isabelle
  imports Main
begin

section \<open>builder.c: the build configuration\<close>

text \<open>
  \<^verbatim>\<open>build_config_t\<close>. The character arrays are strings; the \<^verbatim>\<open>int\<close> fields that the
  program only ever sets to 0 or 1 and only tests for truth are booleans; \<^verbatim>\<open>jobs\<close> is
  the integer that \<^verbatim>\<open>atoi\<close> or \<^verbatim>\<open>sysconf\<close> delivers, always within the range of \<^verbatim>\<open>int\<close>.
\<close>

record build_config =
  kernel_version :: string
  build_dir :: string
  cross_compile :: string
  arch :: string
  defconfig :: string
  jobs :: int
  verbose :: bool
  clean_build :: bool
  install_gpu_blobs :: bool
  enable_opencl :: bool
  enable_vulkan :: bool

text \<open>The locals of \<^verbatim>\<open>main\<close> that the argument loop writes, next to the configuration.\<close>

record cli =
  config :: build_config
  no_install :: bool
  cleanup :: bool
  verify_gpu :: bool

definition BUILD_DIR :: string where
  "BUILD_DIR = ''/tmp/kernel_build''"

definition LOG_FILE :: string where
  "LOG_FILE = ''/tmp/kernel_build.log''"

definition default_config :: build_config where
  "default_config =
     \<lparr> kernel_version = ''6.8.0'',
       build_dir = BUILD_DIR,
       cross_compile = ''aarch64-linux-gnu-'',
       arch = ''arm64'',
       defconfig = ''rockchip_linux_defconfig'',
       jobs = 0,
       verbose = False,
       clean_build = False,
       install_gpu_blobs = True,
       enable_opencl = True,
       enable_vulkan = True \<rparr>"

definition default_cli :: cli where
  "default_cli =
     \<lparr> config = default_config, no_install = False, cleanup = False, verify_gpu = False \<rparr>"

section \<open>The C library calls of the argument loop\<close>

text \<open>
  \<^verbatim>\<open>strncpy(dst, src, sizeof(dst) - 1)\<close> into a field whose last byte is 0 from the
  initialiser: the field then reads as the first \<open>n\<close> characters of the source.
\<close>

definition strncpy :: "nat \<Rightarrow> string \<Rightarrow> string" where
  "strncpy n src = take n src"

definition isspace :: "char \<Rightarrow> bool" where
  "isspace c = (c \<in> set [CHR '' '', CHR 0x09, CHR 0x0A, CHR 0x0B, CHR 0x0C, CHR 0x0D])"

definition isdigit :: "char \<Rightarrow> bool" where
  "isdigit c = (48 \<le> (of_char c :: nat) \<and> (of_char c :: nat) \<le> 57)"

fun atoi_digits :: "int \<Rightarrow> string \<Rightarrow> int" where
  "atoi_digits acc [] = acc"
| "atoi_digits acc (c # cs) =
     (if isdigit c then atoi_digits (acc * 10 + (int (of_char c) - 48)) cs else acc)"

definition LONG_MIN :: int where
  "LONG_MIN = - 9223372036854775808"

definition LONG_MAX :: int where
  "LONG_MAX = 9223372036854775807"

definition INT_MIN :: int where
  "INT_MIN = - 2147483648"

definition INT_MAX :: int where
  "INT_MAX = 2147483647"

text \<open>
  \<^verbatim>\<open>strtol(s, NULL, 10)\<close>: white space, an optional sign, then decimal digits up to
  the first other character; 0 when there is no digit; a value outside the range of
  \<^verbatim>\<open>long\<close> (64 bits on the systems the tool accepts) becomes the nearest bound.
\<close>

definition strtol :: "string \<Rightarrow> int" where
  "strtol s =
     (case dropWhile isspace s of
        [] \<Rightarrow> 0
      | c # cs \<Rightarrow>
          max LONG_MIN (min LONG_MAX
            (if c = CHR ''-'' then - atoi_digits 0 cs
             else if c = CHR ''+'' then atoi_digits 0 cs
             else atoi_digits 0 (c # cs))))"

text \<open>The conversion of a \<^verbatim>\<open>long\<close> to \<^verbatim>\<open>int\<close>: the low 32 bits, read as signed.\<close>

definition int_of_long :: "int \<Rightarrow> int" where
  "int_of_long v = (v + 2147483648) mod 4294967296 - 2147483648"

text \<open>
  \<^verbatim>\<open>atoi\<close> as the C library of the system computes it, \<^verbatim>\<open>(int) strtol(s, NULL, 10)\<close>:
  the number typed when it fits an \<^verbatim>\<open>int\<close>, and its low 32 bits otherwise
  (\<^verbatim>\<open>2147483648\<close> reads as \<open>-2147483648\<close>). \<^verbatim>\<open>atol\<close> is \<^verbatim>\<open>strtol\<close> itself.
\<close>

definition atoi :: "string \<Rightarrow> int" where
  "atoi s = int_of_long (strtol s)"

text \<open>
  The decimal text of an integer, as a user types it after \<^verbatim>\<open>-j\<close>: the digits of the
  magnitude, most significant first, after a minus sign when the number is negative.
\<close>

fun digits_of :: "nat \<Rightarrow> string" where
  "digits_of n =
     (if n < 10 then [char_of (48 + n)]
      else digits_of (n div 10) @ [char_of (48 + n mod 10)])"

declare digits_of.simps [simp del]

definition decimal_literal :: "int \<Rightarrow> string" where
  "decimal_literal i = (if i < 0 then CHR ''-'' # digits_of (nat (- i)) else digits_of (nat i))"

section \<open>main: the argument loop\<close>

text \<open>
  The loop \<^verbatim>\<open>for (i = 1; i < argc; i++)\<close> over \<^verbatim>\<open>argv[1..]\<close>, one equation per position.
  A value flag takes the next token when there is one (\<^verbatim>\<open>if (++i < argc)\<close>) and ends
  the loop otherwise. The chain of \<^verbatim>\<open>strcmp\<close> tests has no final \<^verbatim>\<open>else\<close>: a token that
  matches none of them changes nothing. \<open>Help\<close> is the \<^verbatim>\<open>return 0\<close> after
  \<^verbatim>\<open>print_usage\<close>.
\<close>

datatype parse_result = Help | Parsed cli

fun parse_args :: "string list \<Rightarrow> cli \<Rightarrow> parse_result" where
  "parse_args [] c = Parsed c"
| "parse_args (a # rest) c =
     (if a = ''-h'' \<or> a = ''--help'' then Help
      else if a = ''-v'' \<or> a = ''--version'' then
        (case rest of
           [] \<Rightarrow> Parsed c
         | v # rest' \<Rightarrow>
             parse_args rest' (c\<lparr>config := (config c)\<lparr>kernel_version := strncpy 63 v\<rparr>\<rparr>))
      else if a = ''-j'' \<or> a = ''--jobs'' then
        (case rest of
           [] \<Rightarrow> Parsed c
         | v # rest' \<Rightarrow> parse_args rest' (c\<lparr>config := (config c)\<lparr>jobs := atoi v\<rparr>\<rparr>))
      else if a = ''-d'' \<or> a = ''--build-dir'' then
        (case rest of
           [] \<Rightarrow> Parsed c
         | v # rest' \<Rightarrow>
             parse_args rest' (c\<lparr>config := (config c)\<lparr>build_dir := strncpy 511 v\<rparr>\<rparr>))
      else if a = ''-c'' \<or> a = ''--clean'' then
        parse_args rest (c\<lparr>config := (config c)\<lparr>clean_build := True\<rparr>\<rparr>)
      else if a = ''--defconfig'' then
        (case rest of
           [] \<Rightarrow> Parsed c
         | v # rest' \<Rightarrow>
             parse_args rest' (c\<lparr>config := (config c)\<lparr>defconfig := strncpy 63 v\<rparr>\<rparr>))
      else if a = ''--cross-compile'' then
        (case rest of
           [] \<Rightarrow> Parsed c
         | v # rest' \<Rightarrow>
             parse_args rest' (c\<lparr>config := (config c)\<lparr>cross_compile := strncpy 127 v\<rparr>\<rparr>))
      else if a = ''--verbose'' then
        parse_args rest (c\<lparr>config := (config c)\<lparr>verbose := True\<rparr>\<rparr>)
      else if a = ''--no-install'' then parse_args rest (c\<lparr>no_install := True\<rparr>)
      else if a = ''--cleanup'' then parse_args rest (c\<lparr>cleanup := True\<rparr>)
      else if a = ''--enable-gpu'' then
        parse_args rest (c\<lparr>config := (config c)\<lparr>install_gpu_blobs := True\<rparr>\<rparr>)
      else if a = ''--disable-gpu'' then
        parse_args rest
          (c\<lparr>config := (config c)\<lparr>install_gpu_blobs := False, enable_opencl := False,
                                   enable_vulkan := False\<rparr>\<rparr>)
      else if a = ''--enable-opencl'' then
        parse_args rest (c\<lparr>config := (config c)\<lparr>enable_opencl := True\<rparr>\<rparr>)
      else if a = ''--disable-opencl'' then
        parse_args rest (c\<lparr>config := (config c)\<lparr>enable_opencl := False\<rparr>\<rparr>)
      else if a = ''--enable-vulkan'' then
        parse_args rest (c\<lparr>config := (config c)\<lparr>enable_vulkan := True\<rparr>\<rparr>)
      else if a = ''--disable-vulkan'' then
        parse_args rest (c\<lparr>config := (config c)\<lparr>enable_vulkan := False\<rparr>\<rparr>)
      else if a = ''--verify-gpu'' then parse_args rest (c\<lparr>verify_gpu := True\<rparr>)
      else parse_args rest c)"

text \<open>
  \<^verbatim>\<open>if (config.jobs == 0) config.jobs = sysconf(_SC_NPROCESSORS_ONLN)\<close>: the count of
  online processors that the system reports is a \<^verbatim>\<open>long\<close>, and the assignment converts it
  to \<^verbatim>\<open>int\<close>.
\<close>

definition default_jobs :: "int \<Rightarrow> build_config \<Rightarrow> build_config" where
  "default_jobs nprocessors_onln cfg =
     (if jobs cfg = 0 then cfg\<lparr>jobs := int_of_long nprocessors_onln\<rparr> else cfg)"

section \<open>The process and what it does to the system\<close>

text \<open>
  Everything outside the program (the shell and the tools it runs, the file system, the
  user id) answers through \<open>env\<close>. Each answer may depend on all that the process has
  done so far, the list of its events in order, so that a world in which the same call
  succeeds once and fails later is one of the environments.
\<close>

datatype console =
    Header
  | Usage
  | ConfigSummary build_config
  | NextSteps
  | GpuFeatures
  | Troubleshooting
  | CommandEcho string

datatype event =
    Console console
  | Log string string
  | System string int
  | Popen string bool
  | Mkdir string bool
  | Chdir string bool
  | Setenv string string
  | Fopen string string bool
  | Fprintf string string
  | Fclose string

record env =
  system_rc :: "event list \<Rightarrow> string \<Rightarrow> int"
  stat_ok :: "event list \<Rightarrow> string \<Rightarrow> bool"
  mkdir_ok :: "event list \<Rightarrow> string \<Rightarrow> bool"
  chdir_ok :: "event list \<Rightarrow> string \<Rightarrow> bool"
  fopen_ok :: "event list \<Rightarrow> string \<Rightarrow> string \<Rightarrow> bool"
  access_ok :: "event list \<Rightarrow> string \<Rightarrow> bool"
  popen_out :: "event list \<Rightarrow> string \<Rightarrow> string option"
  euid :: nat
  nprocessors_onln :: int

text \<open>
  The state of the process: what it has done, and whether the global \<^verbatim>\<open>log_fp\<close> is an
  open file. \<open>Console\<close> events are the blocks of text that \<^verbatim>\<open>printf\<close> writes, named
  rather than spelled out. \<open>Log level message\<close> is one call of \<^verbatim>\<open>log_message\<close>: the
  line on the console and, when \<^verbatim>\<open>log_fp\<close> is open, the same line in the log file (the
  time stamp is left out).
\<close>

record proc =
  trace :: "event list"
  log_fp :: bool

definition MAX_CMD_LEN :: nat where
  "MAX_CMD_LEN = 2048"

definition MAX_PATH_LEN :: nat where
  "MAX_PATH_LEN = 512"

definition newline :: char where
  "newline = CHR 0x0A"

text \<open>\<^verbatim>\<open>snprintf(buf, size, ...)\<close> keeps the first \<open>size - 1\<close> characters of the text.\<close>

definition snprintf :: "nat \<Rightarrow> string \<Rightarrow> string" where
  "snprintf n text = take (n - 1) text"

definition emit :: "event \<Rightarrow> proc \<Rightarrow> proc" where
  "emit ev s = s\<lparr>trace := trace s @ [ev]\<rparr>"

definition log_message :: "string \<Rightarrow> string \<Rightarrow> proc \<Rightarrow> proc" where
  "log_message level message s = emit (Log level message) s"

definition execute_command :: "env \<Rightarrow> string \<Rightarrow> bool \<Rightarrow> proc \<Rightarrow> proc \<times> int" where
  "execute_command e cmd show_output s =
     (let s1 = (if show_output then emit (Console (CommandEcho cmd)) s else s);
          log_cmd =
            (if show_output
             then snprintf (MAX_CMD_LEN + 100) (cmd @ '' 2>&1 | tee -a '' @ LOG_FILE)
             else snprintf (MAX_CMD_LEN + 100) (cmd @ '' >> '' @ LOG_FILE @ '' 2>&1''));
          result = system_rc e (trace s1) log_cmd;
          s2 = emit (System log_cmd result) s1
      in if result \<noteq> 0 then (log_message ''ERROR'' ''Command failed'' s2, - 1)
         else (s2, 0))"

definition check_root_permissions :: "env \<Rightarrow> proc \<Rightarrow> proc \<times> int" where
  "check_root_permissions e s =
     (if euid e \<noteq> 0
      then (log_message ''ERROR''
              ''This tool requires root privileges. Please run with sudo.'' s, - 1)
      else (s, 0))"

definition create_directory :: "env \<Rightarrow> string \<Rightarrow> proc \<Rightarrow> proc \<times> int" where
  "create_directory e path s =
     (if \<not> stat_ok e (trace s) path then
        (let ok = mkdir_ok e (trace s) path;
             s1 = emit (Mkdir path ok) s
         in if \<not> ok
            then (log_message ''ERROR''
                    (snprintf 512 (''Failed to create directory: '' @ path)) s1, - 1)
            else (s1, 0))
      else (s, 0))"

definition setup_build_environment :: "env \<Rightarrow> proc \<Rightarrow> proc \<times> int" where
  "setup_build_environment e s0 =
     (let s1 = log_message ''INFO'' ''Setting up build environment...'' s0 in
      case create_directory e BUILD_DIR s1 of (s2, r1) \<Rightarrow>
        if r1 \<noteq> 0 then (s2, - 1)
        else
          (let opened = fopen_ok e (trace s2) LOG_FILE ''a'';
               s3 = (emit (Fopen LOG_FILE ''a'' opened) s2)\<lparr>log_fp := opened\<rparr>;
               s4 = (if \<not> opened then log_message ''WARNING'' ''Could not open log file'' s3
                     else s3)
           in case execute_command e ''apt update'' True s4 of (s5, r2) \<Rightarrow>
                if r2 \<noteq> 0
                then (log_message ''ERROR'' ''Failed to update package lists'' s5, - 1)
                else (log_message ''SUCCESS'' ''Build environment setup completed'' s5, 0)))"

definition packages :: "string list" where
  "packages =
     [''build-essential'', ''gcc-aarch64-linux-gnu'', ''g++-aarch64-linux-gnu'',
      ''libncurses-dev'', ''gawk'', ''flex'', ''bison'', ''openssl'', ''libssl-dev'', ''dkms'',
      ''libelf-dev'', ''libudev-dev'', ''libpci-dev'', ''libiberty-dev'', ''autoconf'', ''llvm'',
      ''git'', ''wget'', ''curl'', ''bc'', ''rsync'', ''kmod'', ''cpio'', ''python3'',
      ''python3-pip'', ''device-tree-compiler'',
      ''fakeroot'', ''kernel-package'', ''pkg-config-dbgsym'',
      ''mesa-opencl-icd'', ''vulkan-tools'', ''vulkan-utils'', ''vulkan-validationlayers'',
      ''libvulkan-dev'', ''ocl-icd-opencl-dev'', ''opencl-headers'', ''clinfo'',
      ''va-driver-all'', ''vdpau-driver-all'', ''mesa-va-drivers'', ''mesa-vdpau-drivers'',
      ''libegl1-mesa-dev'', ''libgles2-mesa-dev'', ''libgl1-mesa-dev'', ''libdrm-dev'',
      ''libgbm-dev'', ''libwayland-dev'', ''libx11-dev'', ''meson'', ''ninja-build'']"

text \<open>The \<^verbatim>\<open>strcpy\<close> and the loop of \<^verbatim>\<open>strcat\<close> that build the one install command.\<close>

definition install_command :: string where
  "install_command =
     foldl (\<lambda>cmd p. cmd @ '' '' @ p) ''DEBIAN_FRONTEND=noninteractive apt install -y'' packages"

definition install_prerequisites :: "env \<Rightarrow> proc \<Rightarrow> proc \<times> int" where
  "install_prerequisites e s0 =
     (let s1 = log_message ''INFO'' ''Installing build prerequisites...'' s0 in
      case execute_command e install_command True s1 of (s2, r1) \<Rightarrow>
        if r1 \<noteq> 0 then (log_message ''ERROR'' ''Failed to install prerequisites'' s2, - 1)
        else
          (case execute_command e
                  ''apt build-dep -y linux linux-image-unsigned-$(uname -r)'' True s2 of
             (s3, r2) \<Rightarrow>
               (let s4 = (if r2 \<noteq> 0
                          then log_message ''WARNING''
                                 ''Failed to install some kernel build dependencies'' s3
                          else s3)
                in (log_message ''SUCCESS'' ''Prerequisites installed successfully'' s4, 0))))"

definition vendor_kernel_clone :: string where
  "vendor_kernel_clone =
     ''git clone --depth 1 --branch ubuntu-rockchip-6.8-opi5 '' @
     ''https://github.com/Joshua-Riek/linux-rockchip.git linux''"

definition mainline_kernel_clone :: "build_config \<Rightarrow> string" where
  "mainline_kernel_clone cfg =
     snprintf MAX_CMD_LEN
       (''git clone --depth 1 --branch v'' @ kernel_version cfg @ '' '' @
        ''https://git.kernel.org/pub/scm/linux/kernel/git/torvalds/linux.git linux'')"

definition download_kernel_source :: "env \<Rightarrow> build_config \<Rightarrow> proc \<Rightarrow> proc \<times> int" where
  "download_kernel_source e cfg s0 =
     (let s1 = log_message ''INFO'' ''Downloading kernel source...'' s0;
          ok = chdir_ok e (trace s1) (build_dir cfg);
          s2 = emit (Chdir (build_dir cfg) ok) s1
      in if \<not> ok then (log_message ''ERROR'' ''Failed to change to build directory'' s2, - 1)
         else
           (case execute_command e vendor_kernel_clone True s2 of (s3, r1) \<Rightarrow>
              if r1 \<noteq> 0 then
                (let s4 = log_message ''WARNING''
                            ''Failed to clone Ubuntu Rockchip kernel, trying mainline...'' s3
                 in case execute_command e (mainline_kernel_clone cfg) True s4 of
                      (s5, r2) \<Rightarrow>
                        if r2 \<noteq> 0
                        then (log_message ''ERROR'' ''Failed to download kernel source'' s5, - 1)
                        else (log_message ''SUCCESS''
                                ''Kernel source downloaded successfully'' s5, 0))
              else (log_message ''SUCCESS'' ''Kernel source downloaded successfully'' s3, 0)))"

definition download_ubuntu_rockchip_patches :: "env \<Rightarrow> proc \<Rightarrow> proc \<times> int" where
  "download_ubuntu_rockchip_patches e s0 =
     (let s1 = log_message ''INFO'' ''Downloading Ubuntu Rockchip patches...'' s0 in
      case execute_command e
             (''git clone --depth 1 '' @
              ''https://github.com/Joshua-Riek/ubuntu-rockchip.git ubuntu-rockchip'') True s1 of
        (s2, r) \<Rightarrow>
          if r \<noteq> 0
          then (log_message ''WARNING'' ''Failed to download Ubuntu Rockchip patches'' s2, 0)
          else (log_message ''SUCCESS'' ''Ubuntu Rockchip patches downloaded'' s2, 0))"

definition firmware_download :: string where
  "firmware_download =
     ''wget -O mali_csffw.bin '' @
     ''https://github.com/JeffyCN/mirrors/raw/libmali/firmware/g610/mali_csffw.bin''"

definition download_mali_blobs :: "env \<Rightarrow> build_config \<Rightarrow> proc \<Rightarrow> proc \<times> int" where
  "download_mali_blobs e cfg s0 =
     (let s1 = log_message ''INFO'' ''Downloading Mali G610 GPU blobs and libraries...'' s0 in
      case create_directory e ''/tmp/mali_install'' s1 of (s2, r0) \<Rightarrow>
        if r0 \<noteq> 0 then (s2, - 1)
        else
          (let ok = chdir_ok e (trace s2) ''/tmp/mali_install'';
               s3 = emit (Chdir ''/tmp/mali_install'' ok) s2
           in if \<not> ok
              then (log_message ''ERROR'' ''Failed to change to Mali install directory'' s3, - 1)
              else
                (let s4 = log_message ''INFO'' ''Downloading Mali CSF firmware...'' s3 in
                 case execute_command e firmware_download True s4 of
                   (s5, r1) \<Rightarrow>
                     if r1 \<noteq> 0
                     then (log_message ''ERROR'' ''Failed to download Mali firmware'' s5, - 1)
                     else
                       (let s6 = log_message ''INFO'' ''Downloading Mali userspace driver...'' s5 in
                        case execute_command e
                               (''wget -O libmali-valhall-g610-g6p0-x11-wayland-gbm.so '' @
                                ''https://github.com/JeffyCN/mirrors/raw/libmali/lib/aarch64-linux-gnu/libmali-valhall-g610-g6p0-x11-wayland-gbm.so'')
                               True s6 of
                          (s7, r2) \<Rightarrow>
                            if r2 \<noteq> 0
                            then (log_message ''ERROR''
                                    ''Failed to download Mali userspace driver'' s7, - 1)
                            else
                              (let s8 =
                                     (if enable_vulkan cfg then
                                        (case execute_command e
                                                (''wget -O libmali-valhall-g610-g6p0-wayland-gbm-vulkan.so '' @
                                                 ''https://github.com/JeffyCN/mirrors/raw/libmali/lib/aarch64-linux-gnu/libmali-valhall-g610-g6p0-wayland-gbm-vulkan.so'')
                                                True
                                                (log_message ''INFO''
                                                   ''Downloading Mali Vulkan-enabled driver...'' s7) of
                                           (t, r3) \<Rightarrow>
                                             if r3 \<noteq> 0
                                             then log_message ''WARNING''
                                                    ''Failed to download Mali Vulkan driver, using standard version'' t
                                             else t)
                                      else s7);
                                   s9 = log_message ''INFO''
                                          ''Downloading additional Mali components...'' s8
                               in case execute_command e
                                         (''git clone --depth 1 --branch libmali '' @
                                          ''https://github.com/tsukumijima/libmali-rockchip.git libmali-src'')
                                         True s9 of
                                    (s10, r4) \<Rightarrow>
                                      (let s11 =
                                             (if r4 \<noteq> 0
                                              then log_message ''WARNING''
                                                     ''Failed to download additional Mali components'' s10
                                              else s10)
                                       in (log_message ''SUCCESS''
                                             ''Mali GPU blobs downloaded successfully'' s11, 0)))))))"

definition mali_links :: "string list" where
  "mali_links =
     [''ln -sf /usr/lib/libmali-valhall-g610-g6p0-x11-wayland-gbm.so /usr/lib/libMali.so'',
      ''ln -sf /usr/lib/libmali-valhall-g610-g6p0-x11-wayland-gbm.so /usr/lib/libMali.so.1'',
      ''ln -sf /usr/lib/libmali-valhall-g610-g6p0-x11-wayland-gbm.so /usr/lib/libmali.so'',
      ''ln -sf /usr/lib/libmali-valhall-g610-g6p0-x11-wayland-gbm.so /usr/lib/libmali.so.1'',
      ''ln -sf /usr/lib/libmali-valhall-g610-g6p0-x11-wayland-gbm.so /usr/lib/libEGL.so.1'',
      ''ln -sf /usr/lib/libmali-valhall-g610-g6p0-x11-wayland-gbm.so /usr/lib/libGLESv1_CM.so.1'',
      ''ln -sf /usr/lib/libmali-valhall-g610-g6p0-x11-wayland-gbm.so /usr/lib/libGLESv2.so.2'',
      ''ln -sf /usr/lib/libmali-valhall-g610-g6p0-x11-wayland-gbm.so /usr/lib/libgbm.so.1'']"

text \<open>The loop over \<^verbatim>\<open>mali_links\<close>: each command once, a warning for each that fails.\<close>

fun create_links :: "env \<Rightarrow> string list \<Rightarrow> proc \<Rightarrow> proc" where
  "create_links e [] s = s"
| "create_links e (l # ls) s =
     (case execute_command e l False s of
        (s1, r) \<Rightarrow>
          create_links e ls
            (if r \<noteq> 0 then log_message ''WARNING'' ''Failed to create some Mali symbolic links'' s1
             else s1))"

definition install_mali_drivers :: "env \<Rightarrow> build_config \<Rightarrow> proc \<Rightarrow> proc \<times> int" where
  "install_mali_drivers e cfg s0 =
     (let s1 = log_message ''INFO'' ''Installing Mali G610 drivers and firmware...'' s0 in
      case execute_command e ''cp /tmp/mali_install/mali_csffw.bin /lib/firmware/'' True s1 of
        (s2, r1) \<Rightarrow>
          if r1 \<noteq> 0 then (log_message ''ERROR'' ''Failed to install Mali firmware'' s2, - 1)
          else
            (case execute_command e
                    ''cp /tmp/mali_install/libmali-valhall-g610-g6p0-x11-wayland-gbm.so /usr/lib/''
                    True s2 of
               (s3, r2) \<Rightarrow>
                 if r2 \<noteq> 0
                 then (log_message ''ERROR'' ''Failed to install Mali userspace driver'' s3, - 1)
                 else
                   (let s4 = log_message ''INFO'' ''Creating Mali driver symbolic links...'' s3;
                        s5 = create_links e mali_links s4;
                        s6 =
                          (if enable_vulkan cfg \<and>
                              access_ok e (trace s5)
                                ''/tmp/mali_install/libmali-valhall-g610-g6p0-wayland-gbm-vulkan.so''
                           then
                             (case execute_command e
                                     ''cp /tmp/mali_install/libmali-valhall-g610-g6p0-wayland-gbm-vulkan.so /usr/lib/''
                                     True
                                     (log_message ''INFO'' ''Installing Mali Vulkan driver...'' s5) of
                                (t, r3) \<Rightarrow>
                                  if r3 \<noteq> 0
                                  then log_message ''WARNING''
                                         ''Failed to install Mali Vulkan driver'' t
                                  else fst (execute_command e
                                         ''ln -sf /usr/lib/libmali-valhall-g610-g6p0-wayland-gbm-vulkan.so /usr/lib/libvulkan_mali.so''
                                         False t))
                           else s5)
                    in case execute_command e ''ldconfig'' True s6 of
                         (s7, r4) \<Rightarrow>
                           (let s8 =
                                  (if r4 \<noteq> 0
                                   then log_message ''WARNING'' ''Failed to update library cache'' s7
                                   else s7)
                            in (log_message ''SUCCESS''
                                  ''Mali drivers installed successfully'' s8, 0)))))"

definition setup_opencl_support :: "env \<Rightarrow> build_config \<Rightarrow> proc \<Rightarrow> proc \<times> int" where
  "setup_opencl_support e cfg s0 =
     (if \<not> enable_opencl cfg then (s0, 0)
      else
        (let s1 = log_message ''INFO'' ''Setting up OpenCL support for Mali G610...'' s0 in
         case create_directory e ''/etc/OpenCL/vendors'' s1 of (s2, r0) \<Rightarrow>
           if r0 \<noteq> 0 then (s2, - 1)
           else
             (let opened = fopen_ok e (trace s2) ''/etc/OpenCL/vendors/mali.icd'' ''w'';
                  s3 = emit (Fopen ''/etc/OpenCL/vendors/mali.icd'' ''w'' opened) s2
              in if opened then
                   (let s4 = emit (Fprintf ''/etc/OpenCL/vendors/mali.icd''
                                     (''/usr/lib/libmali-valhall-g610-g6p0-x11-wayland-gbm.so'' @
                                      [newline])) s3;
                        s5 = emit (Fclose ''/etc/OpenCL/vendors/mali.icd'') s4;
                        s6 = fst (execute_command e
                                    ''chmod 644 /etc/OpenCL/vendors/mali.icd'' False s5)
                    in (log_message ''SUCCESS'' ''OpenCL support configured successfully'' s6, 0))
                 else (log_message ''ERROR'' ''Failed to create Mali OpenCL ICD file'' s3, - 1))))"

definition vulkan_icd_json :: string where
  "vulkan_icd_json = ''/usr/share/vulkan/icd.d/mali.json''"

definition vulkan_driver_lib :: string where
  "vulkan_driver_lib = ''/usr/lib/libmali-valhall-g610-g6p0-wayland-gbm-vulkan.so''"

definition standard_driver_lib :: string where
  "standard_driver_lib = ''/usr/lib/libmali-valhall-g610-g6p0-x11-wayland-gbm.so''"

text \<open>A run of \<^verbatim>\<open>fprintf\<close> calls on one open file, one call for each text.\<close>

definition fprintf_each :: "string \<Rightarrow> string list \<Rightarrow> proc \<Rightarrow> proc" where
  "fprintf_each path texts s = foldl (\<lambda>t text. emit (Fprintf path text) t) s texts"

text \<open>
  The texts that \<^verbatim>\<open>setup_vulkan_support\<close> prints into the descriptor: three before the
  test for the Vulkan-capable library, the line with the chosen library, three after.
\<close>

definition icd_head :: "string list" where
  \<open>icd_head =
     [''{'' @ [newline],
      ''    "file_format_version": "1.0.0",'' @ [newline],
      ''    "ICD": {'' @ [newline]]\<close>

definition icd_library_path :: "string \<Rightarrow> string" where
  \<open>icd_library_path lib = ''        "library_path": "'' @ lib @ ''",'' @ [newline]\<close>

definition icd_tail :: "string list" where
  \<open>icd_tail =
     [''        "api_version": "1.2.131"'' @ [newline],
      ''    }'' @ [newline],
      ''}'' @ [newline]]\<close>

definition vulkan_icd_dir :: string where
  "vulkan_icd_dir = ''/usr/share/vulkan/icd.d''"

definition setup_vulkan_support :: "env \<Rightarrow> build_config \<Rightarrow> proc \<Rightarrow> proc \<times> int" where
  "setup_vulkan_support e cfg s0 =
     (if \<not> enable_vulkan cfg then (s0, 0)
      else
        (let s1 = log_message ''INFO'' ''Setting up Vulkan support for Mali G610...'' s0 in
         case create_directory e vulkan_icd_dir s1 of (s2, r0) \<Rightarrow>
           if r0 \<noteq> 0 then (s2, - 1)
           else
             (let opened = fopen_ok e (trace s2) vulkan_icd_json ''w'';
                  s3 = emit (Fopen vulkan_icd_json ''w'' opened) s2
              in if opened then
                   (let s4 = fprintf_each vulkan_icd_json icd_head s3;
                        s5 =
                          (if access_ok e (trace s4) vulkan_driver_lib
                           then emit (Fprintf vulkan_icd_json
                                        (icd_library_path vulkan_driver_lib)) s4
                           else emit (Fprintf vulkan_icd_json
                                        (icd_library_path standard_driver_lib)) s4);
                        s6 = fprintf_each vulkan_icd_json icd_tail s5;
                        s7 = emit (Fclose vulkan_icd_json) s6;
                        s8 = fst (execute_command e
                                    ''chmod 644 /usr/share/vulkan/icd.d/mali.json'' False s7)
                    in (log_message ''SUCCESS'' ''Vulkan support configured successfully'' s8, 0))
                 else (log_message ''ERROR'' ''Failed to create Mali Vulkan ICD file'' s3, - 1))))"

definition config_options :: "string list" where
  \<open>config_options =
     [''CONFIG_ARCH_ROCKCHIP=y'', ''CONFIG_ARM64=y'', ''CONFIG_ROCKCHIP_RK3588=y'',
      ''CONFIG_COMMON_CLK_RK808=y'', ''CONFIG_ROCKCHIP_IOMMU=y'',
      ''CONFIG_ROCKCHIP_PM_DOMAINS=y'', ''CONFIG_ROCKCHIP_THERMAL=y'',
      ''CONFIG_DRM=y'', ''CONFIG_DRM_ROCKCHIP=y'', ''CONFIG_ROCKCHIP_VOP2=y'',
      ''CONFIG_DRM_PANFROST=y'', ''CONFIG_DRM_PANEL_BRIDGE=y'', ''CONFIG_DRM_PANEL_SIMPLE=y'',
      ''CONFIG_MALI_MIDGARD=m'', ''CONFIG_MALI_PLATFORM_NAME="devicetree"'',
      ''CONFIG_MALI_CSF_SUPPORT=y'', ''CONFIG_MALI_DEVFREQ=y'', ''CONFIG_MALI_DMA_FENCE=y'',
      ''CONFIG_DMA_CMA=y'', ''CONFIG_CMA=y'', ''CONFIG_CMA_SIZE_MBYTES=128'',
      ''CONFIG_DMA_SHARED_BUFFER=y'', ''CONFIG_SYNC_FILE=y'',
      ''CONFIG_PHY_ROCKCHIP_INNO_USB2=y'', ''CONFIG_PHY_ROCKCHIP_NANENG_COMBO_PHY=y'',
      ''CONFIG_ROCKCHIP_SARADC=y'', ''CONFIG_MMC_DW_ROCKCHIP=y'', ''CONFIG_PCIE_ROCKCHIP_HOST=y'',
      ''CONFIG_STAGING_MEDIA=y'', ''CONFIG_VIDEO_ROCKCHIP_RGA=m'', ''CONFIG_VIDEO_ROCKCHIP_VDEC=m'',
      ''CONFIG_ROCKCHIP_VPU=y'', ''CONFIG_VIDEO_HANTRO=m'',
      ''CONFIG_CPU_FREQ=y'', ''CONFIG_CPU_FREQ_DEFAULT_GOV_ONDEMAND=y'',
      ''CONFIG_CPU_FREQ_GOV_PERFORMANCE=y'', ''CONFIG_CPU_FREQ_GOV_POWERSAVE=y'',
      ''CONFIG_CPU_FREQ_GOV_USERSPACE=y'', ''CONFIG_CPU_FREQ_GOV_SCHEDUTIL=y'',
      ''CONFIG_CPUFREQ_DT=y'', ''CONFIG_ARM_ROCKCHIP_CPUFREQ=y'',
      ''CONFIG_FB=y'', ''CONFIG_FB_SIMPLE=y'', ''CONFIG_LOGO=y'', ''CONFIG_LOGO_LINUX_CLUT224=y'']\<close>

text \<open>
  \<^verbatim>\<open>configure_kernel\<close> in three parts, in the order of its text. The first runs up to
  the choice of the defconfig target and holds every \<^verbatim>\<open>return -1\<close> of the function.
\<close>

definition configure_kernel_defconfig :: "env \<Rightarrow> build_config \<Rightarrow> proc \<Rightarrow> proc \<times> int" where
  "configure_kernel_defconfig e cfg s0 =
     (let s1 = log_message ''INFO'' ''Configuring kernel with Mali GPU support...'' s0;
          kernel_dir = snprintf MAX_PATH_LEN (build_dir cfg @ ''/linux'');
          ok = chdir_ok e (trace s1) kernel_dir;
          s2 = emit (Chdir kernel_dir ok) s1
      in if \<not> ok then (log_message ''ERROR'' ''Failed to change to kernel directory'' s2, - 1)
         else
           (let s3 = emit (Setenv ''ARCH'' (arch cfg)) s2;
                s4 = emit (Setenv ''CROSS_COMPILE'' (cross_compile cfg)) s3;
                s5 =
                  (if clean_build cfg then
                     (case execute_command e ''make mrproper'' True
                             (log_message ''INFO'' ''Cleaning previous build artifacts...'' s4) of
                        (t, r0) \<Rightarrow>
                          if r0 \<noteq> 0
                          then log_message ''WARNING'' ''Failed to clean build artifacts'' t
                          else t)
                   else s4)
            in case execute_command e (snprintf MAX_CMD_LEN (''make '' @ defconfig cfg)) True s5 of
                 (s6, r1) \<Rightarrow>
                   if r1 \<noteq> 0 then
                     (let s7 = log_message ''WARNING''
                                 ''Failed to use specific defconfig, trying generic...'' s6
                      in case execute_command e ''make defconfig'' True s7 of
                           (s8, r2) \<Rightarrow>
                             if r2 \<noteq> 0
                             then (log_message ''ERROR'' ''Failed to configure kernel'' s8, - 1)
                             else (s8, 0))
                   else (s6, 0)))"

text \<open>
  The second part: \<^verbatim>\<open>fopen(".config", "a")\<close> and, only under \<^verbatim>\<open>if (config_file)\<close>, one
  \<^verbatim>\<open>fprintf\<close> for each directive and the \<^verbatim>\<open>fclose\<close>. The \<^verbatim>\<open>if\<close> has no \<^verbatim>\<open>else\<close>.
\<close>

definition append_config_options :: "env \<Rightarrow> proc \<Rightarrow> proc" where
  "append_config_options e s =
     (let opened = fopen_ok e (trace s) ''.config'' ''a'';
          s1 = emit (Fopen ''.config'' ''a'' opened) s
      in if opened
         then emit (Fclose ''.config'')
                (fprintf_each ''.config'' (map (\<lambda>opt. opt @ [newline]) config_options) s1)
         else s1)"

definition configure_kernel :: "env \<Rightarrow> build_config \<Rightarrow> proc \<Rightarrow> proc \<times> int" where
  "configure_kernel e cfg s0 =
     (case configure_kernel_defconfig e cfg s0 of
        (s1, r) \<Rightarrow>
          if r \<noteq> 0 then (s1, - 1)
          else
            (let s2 = log_message ''INFO''
                        ''Enabling RK3588, Mali GPU, and hardware acceleration configurations...'' s1;
                 s3 = append_config_options e s2
             in case execute_command e ''make olddefconfig'' True s3 of
                  (s4, r3) \<Rightarrow>
                    (let s5 =
                           (if r3 \<noteq> 0
                            then log_message ''WARNING'' ''Failed to resolve config dependencies'' s4
                            else s4)
                     in (log_message ''SUCCESS''
                           ''Kernel configured successfully with Mali GPU support'' s5, 0))))"

text \<open>\<^verbatim>\<open>%d\<close> prints an \<^verbatim>\<open>int\<close> as its decimal text.\<close>

definition build_kernel :: "env \<Rightarrow> build_config \<Rightarrow> proc \<Rightarrow> proc \<times> int" where
  "build_kernel e cfg s0 =
     (let s1 = log_message ''INFO''
                 ''Building kernel with Mali GPU support (this may take a while)...'' s0;
          s2 = emit (Setenv ''ARCH'' (arch cfg)) s1;
          s3 = emit (Setenv ''CROSS_COMPILE'' (cross_compile cfg)) s2
      in case execute_command e
                (snprintf MAX_CMD_LEN (''make -j'' @ decimal_literal (jobs cfg) @ '' Image''))
                True s3 of
           (s4, r1) \<Rightarrow>
             if r1 \<noteq> 0 then (log_message ''ERROR'' ''Failed to build kernel image'' s4, - 1)
             else
               (case execute_command e
                       (snprintf MAX_CMD_LEN (''make -j'' @ decimal_literal (jobs cfg) @ '' dtbs''))
                       True s4 of
                  (s5, r2) \<Rightarrow>
                    if r2 \<noteq> 0
                    then (log_message ''ERROR'' ''Failed to build device tree blobs'' s5, - 1)
                    else
                      (case execute_command e
                              (snprintf MAX_CMD_LEN
                                 (''make -j'' @ decimal_literal (jobs cfg) @ '' modules''))
                              True s5 of
                         (s6, r3) \<Rightarrow>
                           if r3 \<noteq> 0
                           then (log_message ''ERROR'' ''Failed to build kernel modules'' s6, - 1)
                           else (log_message ''SUCCESS''
                                   ''Kernel built successfully with Mali GPU support'' s6, 0))))"

definition install_kernel :: "env \<Rightarrow> build_config \<Rightarrow> proc \<Rightarrow> proc \<times> int" where
  "install_kernel e cfg s0 =
     (let s1 = log_message ''INFO'' ''Installing kernel and Mali GPU modules...'' s0 in
      case execute_command e ''make modules_install'' True s1 of
        (s2, r1) \<Rightarrow>
          if r1 \<noteq> 0 then (log_message ''ERROR'' ''Failed to install kernel modules'' s2, - 1)
          else
            (case execute_command e ''make dtbs_install'' True s2 of
               (s3, r2) \<Rightarrow>
                 (let s4 =
                        (if r2 \<noteq> 0
                         then log_message ''WARNING'' ''Failed to install device tree blobs'' s3
                         else s3)
                  in case execute_command e
                            (snprintf MAX_CMD_LEN
                               (''cp arch/arm64/boot/Image /boot/vmlinuz-'' @ kernel_version cfg @
                                ''-opi5plus-mali''))
                            True s4 of
                       (s5, r3) \<Rightarrow>
                         if r3 \<noteq> 0
                         then (log_message ''ERROR'' ''Failed to copy kernel image'' s5, - 1)
                         else
                           (case execute_command e
                                   (snprintf MAX_CMD_LEN
                                      (''cp System.map /boot/System.map-'' @ kernel_version cfg @
                                       ''-opi5plus-mali''))
                                   True s5 of
                              (s6, r4) \<Rightarrow>
                                (let s7 =
                                       (if r4 \<noteq> 0
                                        then log_message ''WARNING'' ''Failed to copy System.map'' s6
                                        else s6)
                                 in case execute_command e
                                           (snprintf MAX_CMD_LEN
                                              (''cp .config /boot/config-'' @ kernel_version cfg @
                                               ''-opi5plus-mali''))
                                           True s7 of
                                      (s8, r5) \<Rightarrow>
                                        (let s9 =
                                               (if r5 \<noteq> 0
                                                then log_message ''WARNING''
                                                       ''Failed to copy kernel config'' s8
                                                else s8)
                                         in case execute_command e
                                                   (snprintf MAX_CMD_LEN
                                                      (''update-initramfs -c -k '' @
                                                       kernel_version cfg @ ''-opi5plus-mali''))
                                                   True s9 of
                                              (s10, r6) \<Rightarrow>
                                                (let s11 =
                                                       (if r6 \<noteq> 0
                                                        then log_message ''WARNING''
                                                               ''Failed to update initramfs'' s10
                                                        else s10)
                                                 in case execute_command e ''u-boot-update'' True s11 of
                                                      (s12, r7) \<Rightarrow>
                                                        (let s13 =
                                                               (if r7 \<noteq> 0
                                                                then log_message ''WARNING''
                                                                       ''Failed to update u-boot configuration'' s12
                                                                else s12)
                                                         in (log_message ''SUCCESS''
                                                               ''Kernel installed successfully with Mali GPU support''
                                                               s13, 0)))))))))"

definition verify_gpu_installation :: "env \<Rightarrow> proc \<Rightarrow> proc \<times> int" where
  "verify_gpu_installation e s0 =
     (let s1 = log_message ''INFO'' ''Verifying Mali GPU installation...'' s0 in
      if \<not> access_ok e (trace s1) ''/lib/firmware/mali_csffw.bin''
      then (log_message ''ERROR'' ''Mali firmware not found'' s1, - 1)
      else if \<not> access_ok e (trace s1) standard_driver_lib
      then (log_message ''ERROR'' ''Mali driver library not found'' s1, - 1)
      else
        (let s2 =
               (if access_ok e (trace s1) ''/etc/OpenCL/vendors/mali.icd'' then
                  (case execute_command e ''clinfo 2>/dev/null | grep -i mali'' False
                          (log_message ''INFO'' ''Testing OpenCL functionality...'' s1) of
                     (t, r1) \<Rightarrow>
                       if r1 = 0 then log_message ''SUCCESS'' ''OpenCL Mali support detected'' t
                       else log_message ''WARNING''
                              ''OpenCL Mali support not detected (may need reboot)'' t)
                else s1);
             s3 =
               (if access_ok e (trace s2) vulkan_icd_json then
                  (case execute_command e ''vulkaninfo 2>/dev/null | grep -i mali'' False
                          (log_message ''INFO'' ''Testing Vulkan functionality...'' s2) of
                     (t, r2) \<Rightarrow>
                       if r2 = 0 then log_message ''SUCCESS'' ''Vulkan Mali support detected'' t
                       else log_message ''WARNING''
                              ''Vulkan Mali support not detected (may need reboot)'' t)
                else s2)
         in (log_message ''SUCCESS'' ''GPU installation verification completed'' s3, 0)))"

definition cleanup_build :: "env \<Rightarrow> build_config \<Rightarrow> proc \<Rightarrow> proc \<times> int" where
  "cleanup_build e cfg s0 =
     (let s1 = log_message ''INFO'' ''Cleaning up build artifacts...'' s0 in
      case execute_command e (snprintf MAX_CMD_LEN (''rm -rf '' @ build_dir cfg)) False s1 of
        (s2, r1) \<Rightarrow>
          (let s3 =
                 (if r1 \<noteq> 0 then log_message ''WARNING'' ''Failed to cleanup build directory'' s2
                  else s2)
           in case execute_command e ''rm -rf /tmp/mali_install'' False s3 of
                (s4, r2) \<Rightarrow>
                  (let s5 =
                         (if r2 \<noteq> 0
                          then log_message ''WARNING''
                                 ''Failed to cleanup Mali install directory'' s4
                          else s4)
                   in (log_message ''SUCCESS'' ''Cleanup completed'' s5, 0))))"

text \<open>
  \<^verbatim>\<open>fgets(buf, n, fp)\<close> on the output of a command: the first line with its newline, at
  most \<open>n - 1\<close> characters of it, and nothing when the output is empty.
\<close>

definition fgets :: "nat \<Rightarrow> string \<Rightarrow> string option" where
  "fgets n out =
     (if out = [] then None
      else Some (take (n - 1)
                   (takeWhile (\<lambda>c. c \<noteq> newline) out @
                    take 1 (dropWhile (\<lambda>c. c \<noteq> newline) out))))"

definition atol :: "string \<Rightarrow> int" where
  "atol s = strtol s"

text \<open>The command \<^verbatim>\<open>df /tmp | tail -1 | awk '{print $4}'\<close>.\<close>

definition df_command :: string where
  "df_command = ''df /tmp | tail -1 | awk '' @ [CHR 0x27] @ ''{print $4}'' @ [CHR 0x27]"

definition check_dependencies :: "env \<Rightarrow> proc \<Rightarrow> proc \<times> int" where
  "check_dependencies e s0 =
     (if \<not> stat_ok e (trace s0) ''/etc/debian_version''
      then (log_message ''ERROR'' ''This tool is designed for Ubuntu/Debian systems'' s0, - 1)
      else
        (let s1 =
               (case popen_out e (trace s0) ''uname -m'' of
                  None \<Rightarrow> emit (Popen ''uname -m'' False) s0
                | Some out \<Rightarrow>
                    (let t = emit (Popen ''uname -m'' True) s0 in
                     case fgets 32 out of
                       None \<Rightarrow> t
                     | Some line \<Rightarrow>
                         (let machine = takeWhile (\<lambda>c. c \<noteq> newline) line in
                          if machine \<noteq> ''aarch64'' \<and> machine \<noteq> ''x86_64''
                          then log_message ''WARNING'' ''Untested architecture detected'' t
                          else t)));
             s2 =
               (case popen_out e (trace s1) df_command of
                  None \<Rightarrow> emit (Popen df_command False) s1
                | Some out \<Rightarrow>
                    (let t = emit (Popen df_command True) s1
                     in case fgets 32 out of
                          None \<Rightarrow> t
                        | Some space \<Rightarrow>
                            if atol space < 10485760
                            then log_message ''WARNING''
                                   ''Less than 10GB free space available in /tmp'' t
                            else t))
         in (s2, 0)))"

section \<open>main\<close>

text \<open>The label \<^verbatim>\<open>error:\<close>, where every fatal stage of \<^verbatim>\<open>main\<close> jumps.\<close>

definition main_error :: "proc \<Rightarrow> proc \<times> int" where
  "main_error s =
     (let s1 = log_message ''ERROR'' ''Kernel build process failed!'' s;
          s2 = emit (Console Troubleshooting) s1;
          s3 = (if log_fp s2 then emit (Fclose LOG_FILE) s2 else s2)
      in (s3, 1))"

text \<open>
  The block of \<^verbatim>\<open>main\<close> under \<^verbatim>\<open>if (config.install_gpu_blobs)\<close>: the four GPU stages,
  each with its \<^verbatim>\<open>goto error\<close>. The flag returned says whether the jump was taken.
\<close>

definition gpu_blobs_block :: "env \<Rightarrow> build_config \<Rightarrow> proc \<Rightarrow> proc \<times> bool" where
  "gpu_blobs_block e cfg s =
     (if install_gpu_blobs cfg then
        (case download_mali_blobs e cfg s of (g1, q1) \<Rightarrow>
         if q1 \<noteq> 0 then (g1, True) else
         case install_mali_drivers e cfg g1 of (g2, q2) \<Rightarrow>
         if q2 \<noteq> 0 then (g2, True) else
         case setup_opencl_support e cfg g2 of (g3, q3) \<Rightarrow>
         if q3 \<noteq> 0 then (g3, True) else
         case setup_vulkan_support e cfg g3 of (g4, q4) \<Rightarrow>
         if q4 \<noteq> 0 then (g4, True) else (g4, False))
      else (s, False))"

text \<open>
  The block of \<^verbatim>\<open>main\<close> under \<^verbatim>\<open>if (!no_install)\<close>: the installation with its
  \<^verbatim>\<open>goto error\<close>, then the verification on request, whose result is dropped.
\<close>

definition install_block :: "env \<Rightarrow> cli \<Rightarrow> build_config \<Rightarrow> proc \<Rightarrow> proc \<times> bool" where
  "install_block e c cfg s =
     (if \<not> no_install c then
        (case install_kernel e cfg s of (k1, q) \<Rightarrow>
         if q \<noteq> 0 then (k1, True)
         else if verify_gpu c \<and> install_gpu_blobs cfg
         then (fst (verify_gpu_installation e k1), False)
         else (k1, False))
      else (s, False))"

text \<open>
  \<^verbatim>\<open>main\<close> on \<^verbatim>\<open>argv[1..]\<close>: the final state of the process and its exit status.
\<close>

definition main :: "env \<Rightarrow> string list \<Rightarrow> proc \<times> int" where
  "main e argv =
     (let s0 = emit (Console Header) \<lparr>trace = [], log_fp = False\<rparr> in
      case parse_args argv default_cli of
        Help \<Rightarrow> (emit (Console Usage) s0, 0)
      | Parsed c \<Rightarrow>
          (let cfg = default_jobs (nprocessors_onln e) (config c) in
           case check_dependencies e s0 of (s1, r1) \<Rightarrow>
           if r1 \<noteq> 0 then (s1, 1) else
           case check_root_permissions e s1 of (s2, r2) \<Rightarrow>
           if r2 \<noteq> 0 then (s2, 1) else
           (let s3 = log_message ''INFO''
                       ''Starting Orange Pi 5 Plus kernel build process with Mali GPU support'' s2;
                s4 = emit (Console (ConfigSummary cfg)) s3
            in
            case setup_build_environment e s4 of (s5, r5) \<Rightarrow>
            if r5 \<noteq> 0 then main_error s5 else
            case install_prerequisites e s5 of (s6, r6) \<Rightarrow>
            if r6 \<noteq> 0 then main_error s6 else
            case gpu_blobs_block e cfg s6 of (s7, gpu_failed) \<Rightarrow>
            if gpu_failed then main_error s7 else
            case download_kernel_source e cfg s7 of (s8, r8) \<Rightarrow>
            if r8 \<noteq> 0 then main_error s8 else
            case download_ubuntu_rockchip_patches e s8 of (s9, r9) \<Rightarrow>
            case configure_kernel e cfg s9 of (s10, r10) \<Rightarrow>
            if r10 \<noteq> 0 then main_error s10 else
            case build_kernel e cfg s10 of (s11, r11) \<Rightarrow>
            if r11 \<noteq> 0 then main_error s11 else
            case install_block e c cfg s11 of (s12, install_failed) \<Rightarrow>
            if install_failed then main_error s12 else
            (let s13 = (if cleanup c then fst (cleanup_build e cfg s12) else s12);
                 s14 = log_message ''SUCCESS'' ''Kernel build process completed successfully!'' s13;
                 s15 = emit (Console NextSteps) s14;
                 s16 = (if install_gpu_blobs cfg then emit (Console GpuFeatures) s15 else s15);
                 s17 = (if log_fp s16 then emit (Fclose LOG_FILE) s16 else s16)
             in (s17, 0)))))"

section \<open>Notions used to state the properties\<close>

text \<open>A property of the configuration that the argument loop ends with, when it ends
  without the help exit.\<close>

definition on_parsed :: "(cli \<Rightarrow> bool) \<Rightarrow> parse_result \<Rightarrow> bool" where
  "on_parsed P r = (case r of Help \<Rightarrow> True | Parsed c \<Rightarrow> P c)"

text \<open>What the process did between two of its states.\<close>

definition events_since :: "proc \<Rightarrow> proc \<Rightarrow> event list" where
  "events_since s s' = drop (length (trace s)) (trace s')"

text \<open>The text that a run of events writes to one file, in order.\<close>

fun file_output :: "string \<Rightarrow> event list \<Rightarrow> string" where
  "file_output path [] = []"
| "file_output path (Fprintf p text # evs) =
     (if p = path then text @ file_output path evs else file_output path evs)"
| "file_output path (ev # evs) = file_output path evs"

text \<open>The commands that a run of events hands to \<^verbatim>\<open>system\<close>, in order.\<close>

fun commands_run :: "event list \<Rightarrow> string list" where
  "commands_run [] = []"
| "commands_run (System line r # evs) = line # commands_run evs"
| "commands_run (ev # evs) = commands_run evs"

text \<open>
  Every stage function of \<^verbatim>\<open>main\<close> starts its work with an \<^verbatim>\<open>INFO\<close> message of its own
  (the two API stages after their flag test). These messages are fixed texts, and no
  other message of the program equals one of them; a stage was executed in a run
  exactly when its message is in the trace.
\<close>

datatype stage =
    SetupBuildEnvironment
  | InstallPrerequisites
  | DownloadMaliBlobs
  | InstallMaliDrivers
  | SetupOpenclSupport
  | SetupVulkanSupport
  | DownloadKernelSource
  | DownloadUbuntuRockchipPatches
  | ConfigureKernel
  | BuildKernel
  | InstallKernel
  | VerifyGpuInstallation
  | CleanupBuild

fun stage_of_event :: "event \<Rightarrow> stage option" where
  "stage_of_event (Log level message) =
     (if level \<noteq> ''INFO'' then None
      else if message = ''Setting up build environment...'' then Some SetupBuildEnvironment
      else if message = ''Installing build prerequisites...'' then Some InstallPrerequisites
      else if message = ''Downloading Mali G610 GPU blobs and libraries...''
        then Some DownloadMaliBlobs
      else if message = ''Installing Mali G610 drivers and firmware...''
        then Some InstallMaliDrivers
      else if message = ''Setting up OpenCL support for Mali G610...''
        then Some SetupOpenclSupport
      else if message = ''Setting up Vulkan support for Mali G610...''
        then Some SetupVulkanSupport
      else if message = ''Downloading kernel source...'' then Some DownloadKernelSource
      else if message = ''Downloading Ubuntu Rockchip patches...''
        then Some DownloadUbuntuRockchipPatches
      else if message = ''Configuring kernel with Mali GPU support...'' then Some ConfigureKernel
      else if message = ''Building kernel with Mali GPU support (this may take a while)...''
        then Some BuildKernel
      else if message = ''Installing kernel and Mali GPU modules...'' then Some InstallKernel
      else if message = ''Verifying Mali GPU installation...'' then Some VerifyGpuInstallation
      else if message = ''Cleaning up build artifacts...'' then Some CleanupBuild
      else None)"
| "stage_of_event ev = None"

definition stages_run :: "event list \<Rightarrow> stage list" where
  "stages_run evs = List.map_filter stage_of_event evs"

text \<open>
  The stages that \<^verbatim>\<open>main\<close> has to run for a configuration, in order: those of the GPU
  block, those up to the installation (all before the last \<^verbatim>\<open>goto error\<close>), and all of
  them.
\<close>

definition gpu_stages :: "build_config \<Rightarrow> stage list" where
  "gpu_stages cfg =
     (if install_gpu_blobs cfg
      then [DownloadMaliBlobs, InstallMaliDrivers] @
           (if enable_opencl cfg then [SetupOpenclSupport] else []) @
           (if enable_vulkan cfg then [SetupVulkanSupport] else [])
      else [])"

definition fatal_stages :: "cli \<Rightarrow> stage list" where
  "fatal_stages c =
     [SetupBuildEnvironment, InstallPrerequisites] @ gpu_stages (config c) @
     [DownloadKernelSource, DownloadUbuntuRockchipPatches, ConfigureKernel, BuildKernel] @
     (if no_install c then [] else [InstallKernel])"

definition planned_stages :: "cli \<Rightarrow> stage list" where
  "planned_stages c =
     fatal_stages c @
     (if \<not> no_install c \<and> verify_gpu c \<and> install_gpu_blobs (config c)
      then [VerifyGpuInstallation] else []) @
     (if cleanup c then [CleanupBuild] else [])"

text \<open>
  The line that \<^verbatim>\<open>execute_command\<close> composes for \<^verbatim>\<open>show_output\<close>, when the buffer
  holds all of it (a command of at most 2111 characters; those of the program are).
\<close>

definition tee_line :: "string \<Rightarrow> string" where
  "tee_line cmd = cmd @ '' 2>&1 | tee -a '' @ LOG_FILE"

text \<open>The events that one call of \<^verbatim>\<open>execute_command\<close> adds after the history \<open>h\<close>.\<close>

definition exec_events :: "env \<Rightarrow> string \<Rightarrow> bool \<Rightarrow> event list \<Rightarrow> event list" where
  "exec_events e cmd show_output h =
     drop (length h)
       (trace (fst (execute_command e cmd show_output \<lparr>trace = h, log_fp = False\<rparr>)))"

text \<open>The conditional message after a step that is not fatal.\<close>

definition noted :: "bool \<Rightarrow> string \<Rightarrow> string \<Rightarrow> proc \<Rightarrow> proc" where
  "noted b level message s = (if b then log_message level message s else s)"

text \<open>Environments and a starting state for the examples.\<close>

definition env_all_ok :: env where
  "env_all_ok =
     \<lparr> system_rc = (\<lambda>h line. 0),
       stat_ok = (\<lambda>h path. True),
       mkdir_ok = (\<lambda>h path. True),
       chdir_ok = (\<lambda>h path. True),
       fopen_ok = (\<lambda>h path mode. True),
       access_ok = (\<lambda>h path. True),
       popen_out = (\<lambda>h cmd. if cmd = ''uname -m'' then Some (''aarch64'' @ [newline])
                              else Some (''52428800'' @ [newline])),
       euid = 0,
       nprocessors_onln = 8 \<rparr>"

definition env_commands_fail :: env where
  "env_commands_fail = env_all_ok\<lparr>system_rc := (\<lambda>h line. 256)\<rparr>"

definition env_no_chdir :: env where
  "env_no_chdir = env_all_ok\<lparr>chdir_ok := (\<lambda>h path. False)\<rparr>"

definition env_no_fopen :: env where
  "env_no_fopen = env_all_ok\<lparr>fopen_ok := (\<lambda>h path mode. False)\<rparr>"

definition env_no_access :: env where
  "env_no_access = env_all_ok\<lparr>access_ok := (\<lambda>h path. False)\<rparr>"

definition proc_start :: proc where
  "proc_start = \<lparr>trace = [], log_fp = False\<rparr>"

text \<open>
  The shell is not part of the repository. \<^verbatim>\<open>system\<close> runs its argument with
  \<^verbatim>\<open>sh -c\<close>; for a pipeline \<^verbatim>\<open>A | B\<close> the shell reports the exit status of \<^verbatim>\<open>B\<close>, and
  \<^verbatim>\<open>system\<close> returns it as a wait status, the exit status in the high byte. This is the
  value returned for \<^verbatim>\<open>cmd 2>&1 | tee -a log\<close> when \<^verbatim>\<open>cmd\<close> exits with \<open>cmd_exit\<close> and
  \<^verbatim>\<open>tee\<close> with \<open>tee_exit\<close>.
\<close>

definition pipeline_wait_status :: "nat \<Rightarrow> nat \<Rightarrow> int" where
  "pipeline_wait_status cmd_exit tee_exit = int tee_exit * 256"

text \<open>
  An environment in which the wrapped command of every pipeline exits with 1 and
  \<^verbatim>\<open>tee\<close> with 0; one in which the download of the firmware fails (\<^verbatim>\<open>wget\<close> exits with 8)
  while \<^verbatim>\<open>tee\<close> exits with 0; and one in which that download succeeds while \<^verbatim>\<open>tee\<close> exits
  with 1. Every other command succeeds.
\<close>

definition env_command_fails_tee_ok :: env where
  "env_command_fails_tee_ok =
     env_all_ok\<lparr>system_rc := (\<lambda>h line. pipeline_wait_status 1 0)\<rparr>"

definition env_firmware_wget_fails :: env where
  "env_firmware_wget_fails =
     env_all_ok\<lparr>system_rc :=
       (\<lambda>h line. if line = tee_line firmware_download then pipeline_wait_status 8 0 else 0)\<rparr>"

definition env_firmware_tee_fails :: env where
  "env_firmware_tee_fails =
     env_all_ok\<lparr>system_rc :=
       (\<lambda>h line. if line = tee_line firmware_download then pipeline_wait_status 0 1 else 0)\<rparr>"

text \<open>
  How a run of \<^verbatim>\<open>main\<close> may end: with status 0 after exactly the planned stages, or
  with status 1 after stages that all lie before the last \<^verbatim>\<open>goto error\<close>.
\<close>

definition outcome_ok :: "cli \<Rightarrow> proc \<times> int \<Rightarrow> bool" where
  "outcome_ok c res =
     ((snd res = 0 \<or> snd res = 1) \<and>
      (snd res = 0 \<longrightarrow> stages_run (trace (fst res)) = planned_stages c) \<and>
      (snd res \<noteq> 0 \<longrightarrow> set (stages_run (trace (fst res))) \<subseteq> set (fatal_stages c)))"

text \<open>A run that ended with status 1 no later than in the download of the GPU blobs.\<close>

definition aborted_at_blobs :: "proc \<times> int \<Rightarrow> bool" where
  "aborted_at_blobs res =
     (snd res = 1 \<and>
      set (stages_run (trace (fst res)))
        \<subseteq> {SetupBuildEnvironment, InstallPrerequisites, DownloadMaliBlobs})"

text \<open>
  An environment in which every command succeeds, every path exists, every directory can
  be entered, every file can be opened, and the user is root.
\<close>

definition all_ok :: "env \<Rightarrow> bool" where
  "all_ok e =
     ((\<forall>h line. system_rc e h line = 0) \<and> (\<forall>h path. stat_ok e h path) \<and>
      (\<forall>h path. chdir_ok e h path) \<and> (\<forall>h path mode. fopen_ok e h path mode) \<and> euid e = 0)"

text \<open>
  The line that \<^verbatim>\<open>execute_command\<close> hands to \<^verbatim>\<open>system\<close> for a command: the command
  with the redirection of its mode, as far as the buffer \<^verbatim>\<open>log_cmd\<close> holds it.
\<close>

definition log_cmd :: "bool \<Rightarrow> string \<Rightarrow> string" where
  "log_cmd show_output cmd =
     (if show_output
      then snprintf (MAX_CMD_LEN + 100) (cmd @ '' 2>&1 | tee -a '' @ LOG_FILE)
      else snprintf (MAX_CMD_LEN + 100) (cmd @ '' >> '' @ LOG_FILE @ '' 2>&1''))"

text \<open>
  \<^verbatim>\<open>system\<close> returns 0 for the \<^verbatim>\<open>show_output\<close> line of a command, whenever it is run.
\<close>

definition succeeds :: "env \<Rightarrow> string \<Rightarrow> bool" where
  "succeeds e cmd = (\<forall>h. system_rc e h (log_cmd True cmd) = 0)"

text \<open>
  The commands that the stages outside the GPU block pass to \<^verbatim>\<open>execute_command\<close>, in the
  order of the program text: environment setup and prerequisite installation; kernel
  source and patches, with the upstream clone that is run only after a failed vendor
  clone; configuration, with \<^verbatim>\<open>make mrproper\<close> for a clean build and \<^verbatim>\<open>make defconfig\<close>
  that is run only after a failed \<^verbatim>\<open>make\<close> of the configured defconfig; compilation;
  installation; cleanup.
\<close>

definition prerequisite_commands :: "string list" where
  "prerequisite_commands =
     [''apt update'', install_command,
      ''apt build-dep -y linux linux-image-unsigned-$(uname -r)'']"

definition patches_clone :: string where
  "patches_clone =
     ''git clone --depth 1 '' @
     ''https://github.com/Joshua-Riek/ubuntu-rockchip.git ubuntu-rockchip''"

definition source_commands :: "build_config \<Rightarrow> bool \<Rightarrow> string list" where
  "source_commands cfg fallback =
     [vendor_kernel_clone] @ (if fallback then [mainline_kernel_clone cfg] else []) @
     [patches_clone]"

definition defconfig_command :: "build_config \<Rightarrow> string" where
  "defconfig_command cfg = snprintf MAX_CMD_LEN (''make '' @ defconfig cfg)"

definition configure_commands :: "build_config \<Rightarrow> bool \<Rightarrow> string list" where
  "configure_commands cfg fallback =
     (if clean_build cfg then [''make mrproper''] else []) @
     [defconfig_command cfg] @ (if fallback then [''make defconfig''] else []) @
     [''make olddefconfig'']"

definition build_commands :: "build_config \<Rightarrow> string list" where
  "build_commands cfg =
     [snprintf MAX_CMD_LEN (''make -j'' @ decimal_literal (jobs cfg) @ '' Image''),
      snprintf MAX_CMD_LEN (''make -j'' @ decimal_literal (jobs cfg) @ '' dtbs''),
      snprintf MAX_CMD_LEN (''make -j'' @ decimal_literal (jobs cfg) @ '' modules'')]"

definition copy_image_command :: "build_config \<Rightarrow> string" where
  "copy_image_command cfg =
     snprintf MAX_CMD_LEN
       (''cp arch/arm64/boot/Image /boot/vmlinuz-'' @ kernel_version cfg @ ''-opi5plus-mali'')"

definition install_commands :: "build_config \<Rightarrow> string list" where
  "install_commands cfg =
     [''make modules_install'', ''make dtbs_install'', copy_image_command cfg,
      snprintf MAX_CMD_LEN
        (''cp System.map /boot/System.map-'' @ kernel_version cfg @ ''-opi5plus-mali''),
      snprintf MAX_CMD_LEN
        (''cp .config /boot/config-'' @ kernel_version cfg @ ''-opi5plus-mali''),
      snprintf MAX_CMD_LEN
        (''update-initramfs -c -k '' @ kernel_version cfg @ ''-opi5plus-mali''),
      ''u-boot-update'']"

definition cleanup_commands :: "build_config \<Rightarrow> string list" where
  "cleanup_commands cfg =
     [snprintf MAX_CMD_LEN (''rm -rf '' @ build_dir cfg), ''rm -rf /tmp/mali_install'']"

text \<open>
  All the lines that a run without the GPU block hands to \<^verbatim>\<open>system\<close> when it reaches
  its end, given whether each of the two fallbacks was used: those of the stages up to
  the installation (left out for \<^verbatim>\<open>--no-install\<close>) with \<^verbatim>\<open>show_output\<close>, and those of
  the cleanup for \<^verbatim>\<open>--cleanup\<close> without.
\<close>

definition kernel_commands :: "cli \<Rightarrow> build_config \<Rightarrow> bool \<Rightarrow> bool \<Rightarrow> string list" where
  "kernel_commands c cfg clone_fallback defconfig_fallback =
     map (log_cmd True)
       (prerequisite_commands @ source_commands cfg clone_fallback @
        configure_commands cfg defconfig_fallback @ build_commands cfg @
        (if no_install c then [] else install_commands cfg)) @
     (if cleanup c then map (log_cmd False) (cleanup_commands cfg) else [])"

text \<open>
  Every step of a run without the GPU block whose failure sends \<^verbatim>\<open>main\<close> to an exit with
  status 1 succeeds: the user is root, \<^verbatim>\<open>/etc/debian_version\<close> exists, the build directory
  exists or can be created, the build directory and the kernel directory in it can be
  entered, and \<^verbatim>\<open>system\<close> returns 0 for \<^verbatim>\<open>apt update\<close>, for the package installation, for
  one of the two clones of the kernel, for one of the two defconfig commands, for the
  three \<^verbatim>\<open>make\<close> commands of the compilation and, unless \<^verbatim>\<open>--no-install\<close> was given, for
  \<^verbatim>\<open>make modules_install\<close> and the copy of the kernel image.
\<close>

definition kernel_steps_succeed :: "env \<Rightarrow> cli \<Rightarrow> build_config \<Rightarrow> bool" where
  "kernel_steps_succeed e c cfg =
     (euid e = 0 \<and>
      (\<forall>h. stat_ok e h ''/etc/debian_version'') \<and>
      (\<forall>h. stat_ok e h BUILD_DIR \<or> mkdir_ok e h BUILD_DIR) \<and>
      (\<forall>h. chdir_ok e h (build_dir cfg)) \<and>
      (\<forall>h. chdir_ok e h (snprintf MAX_PATH_LEN (build_dir cfg @ ''/linux''))) \<and>
      succeeds e ''apt update'' \<and> succeeds e install_command \<and>
      (succeeds e vendor_kernel_clone \<or> succeeds e (mainline_kernel_clone cfg)) \<and>
      (succeeds e (defconfig_command cfg) \<or> succeeds e ''make defconfig'') \<and>
      (\<forall>cmd \<in> set (build_commands cfg). succeeds e cmd) \<and>
      (no_install c \<or>
       succeeds e ''make modules_install'' \<and> succeeds e (copy_image_command cfg)))"

text \<open>
  A run ended with status 0 has handed to \<^verbatim>\<open>system\<close> exactly the lines of the kernel
  stages, a fallback among them only where its first choice does not always succeed.
\<close>

definition kernel_outcome :: "env \<Rightarrow> cli \<Rightarrow> build_config \<Rightarrow> proc \<times> int \<Rightarrow> bool" where
  "kernel_outcome e c cfg res =
     (snd res = 0 \<longrightarrow>
      (\<exists>clone_fallback defconfig_fallback.
         commands_run (trace (fst res)) =
           kernel_commands c cfg clone_fallback defconfig_fallback \<and>
         (clone_fallback \<longrightarrow> \<not> succeeds e vendor_kernel_clone) \<and>
         (defconfig_fallback \<longrightarrow> \<not> succeeds e (defconfig_command cfg))))"

section \<open>The argument loop: the GPU flags\<close>

declare parse_args.simps(2) [simp del]

lemma on_parsed_simps [simp]: "on_parsed P Help" "on_parsed P (Parsed c) = P c"
  by (simp_all add: on_parsed_def)

lemma opencl_off_sat:
  "''--enable-opencl'' \<notin> set args \<Longrightarrow> \<not> enable_opencl (config c) \<Longrightarrow>
   on_parsed (\<lambda>c'. \<not> enable_opencl (config c')) (parse_args args c)"
proof (induction args arbitrary: c rule: induct_list012)
  case 1
  then show ?case by simp
next
  case (2 a)
  then show ?case by (auto simp add: parse_args.simps(2)[of a "[]"])
next
  case (3 a v rest)
  then show ?case by (auto simp add: parse_args.simps(2)[of a "v # rest"])
qed

lemma vulkan_off_sat:
  "''--enable-vulkan'' \<notin> set args \<Longrightarrow> \<not> enable_vulkan (config c) \<Longrightarrow>
   on_parsed (\<lambda>c'. \<not> enable_vulkan (config c')) (parse_args args c)"
proof (induction args arbitrary: c rule: induct_list012)
  case 1
  then show ?case by simp
next
  case (2 a)
  then show ?case by (auto simp add: parse_args.simps(2)[of a "[]"])
next
  case (3 a v rest)
  then show ?case by (auto simp add: parse_args.simps(2)[of a "v # rest"])
qed

lemma jobs_kept_sat:
  "''-j'' \<notin> set args \<Longrightarrow> ''--jobs'' \<notin> set args \<Longrightarrow> jobs (config c) = j \<Longrightarrow>
   on_parsed (\<lambda>c'. jobs (config c') = j) (parse_args args c)"
proof (induction args arbitrary: c rule: induct_list012)
  case 1
  then show ?case by simp
next
  case (2 a)
  then show ?case by (auto simp add: parse_args.simps(2)[of a "[]"])
next
  case (3 a v rest)
  then show ?case by (auto simp add: parse_args.simps(2)[of a "v # rest"])
qed

lemma isdigit_char_of: "(d::nat) < 10 \<Longrightarrow> isdigit (char_of (48 + d))"
  by (simp add: isdigit_def)

lemma digit_value: "(d::nat) < 10 \<Longrightarrow> int (of_char (char_of (48 + d))) - 48 = int d"
  by simp

lemma atoi_digits_append:
  "\<forall>c \<in> set xs. isdigit c \<Longrightarrow> atoi_digits acc (xs @ ys) = atoi_digits (atoi_digits acc xs) ys"
  by (induction xs arbitrary: acc) simp_all

lemma digits_of_isdigit: "\<forall>c \<in> set (digits_of n). isdigit c"
proof (induction n rule: digits_of.induct)
  case (1 n)
  show ?case
  proof (cases "n < 10")
    case True
    then show ?thesis by (simp add: digits_of.simps[of n] isdigit_char_of)
  next
    case False
    with 1 show ?thesis by (simp add: digits_of.simps[of n] isdigit_char_of)
  qed
qed

lemma atoi_digits_digits_of: "atoi_digits 0 (digits_of n) = int n"
proof (induction n rule: digits_of.induct)
  case (1 n)
  show ?case
  proof (cases "n < 10")
    case True
    then show ?thesis by (simp add: digits_of.simps[of n] isdigit_char_of digit_value)
  next
    case False
    have "atoi_digits 0 (digits_of n) = atoi_digits (atoi_digits 0 (digits_of (n div 10))) [char_of (48 + n mod 10)]"
      using False by (simp add: digits_of.simps[of n] atoi_digits_append digits_of_isdigit)
    also have "\<dots> = int (n div 10) * 10 + int (n mod 10)"
      using 1 False by (simp add: isdigit_char_of digit_value)
    also have "\<dots> = int n"
      by presburger
    finally show ?thesis .
  qed
qed

lemma digits_of_nonempty: "digits_of n \<noteq> []"
  by (simp add: digits_of.simps[of n])

lemma digits_of_hd: "\<exists>c cs. digits_of n = c # cs \<and> isdigit c"
  using digits_of_nonempty[of n] digits_of_isdigit[of n] by (cases "digits_of n") auto

lemma isdigit_not_space: "isdigit c \<Longrightarrow> \<not> isspace c \<and> c \<noteq> CHR ''-'' \<and> c \<noteq> CHR ''+''"
  by (auto simp add: isdigit_def isspace_def)

lemma strtol_digits_of: "strtol (digits_of n) = max LONG_MIN (min LONG_MAX (int n))"
proof -
  obtain c cs where eq: "digits_of n = c # cs" and d: "isdigit c"
    using digits_of_hd by blast
  from d have "\<not> isspace c" "c \<noteq> CHR ''-''" "c \<noteq> CHR ''+''"
    using isdigit_not_space by blast+
  then have "strtol (digits_of n) = max LONG_MIN (min LONG_MAX (atoi_digits 0 (digits_of n)))"
    by (simp add: strtol_def eq)
  then show ?thesis by (simp add: atoi_digits_digits_of)
qed

lemma strtol_decimal_literal: "strtol (decimal_literal i) = max LONG_MIN (min LONG_MAX i)"
proof (cases "i < 0")
  case True
  have "\<not> isspace (CHR ''-'')" by (simp add: isspace_def)
  then have "strtol (decimal_literal i) =
      max LONG_MIN (min LONG_MAX (- atoi_digits 0 (digits_of (nat (- i)))))"
    using True by (simp add: strtol_def decimal_literal_def)
  then show ?thesis using True by (simp add: atoi_digits_digits_of)
next
  case False
  then show ?thesis by (simp add: decimal_literal_def strtol_digits_of)
qed

lemma int_of_long_in_range: "INT_MIN \<le> v \<Longrightarrow> v \<le> INT_MAX \<Longrightarrow> int_of_long v = v"
  by (simp add: int_of_long_def INT_MIN_def INT_MAX_def)

lemma atoi_decimal_literal:
  "INT_MIN \<le> i \<Longrightarrow> i \<le> INT_MAX \<Longrightarrow> atoi (decimal_literal i) = i"
  by (simp add: atoi_def strtol_decimal_literal int_of_long_in_range)
    (simp add: INT_MIN_def INT_MAX_def LONG_MIN_def LONG_MAX_def int_of_long_def)

lemma on_parsedD: "on_parsed P r \<Longrightarrow> r = Parsed c \<Longrightarrow> P c"
  by simp

text \<open>
  C1. At any position of the loop (any configuration reached so far), \<^verbatim>\<open>--disable-gpu\<close>
  clears the GPU-blob, OpenCL and Vulkan flags together, and \<^verbatim>\<open>--enable-gpu\<close> sets the
  GPU-blob flag alone. After a \<^verbatim>\<open>--disable-gpu\<close>, OpenCL is still off at the end of the
  loop unless \<^verbatim>\<open>--enable-opencl\<close> is among the later tokens, and likewise Vulkan. For
  \<^verbatim>\<open>--disable-gpu --enable-gpu\<close> the result is GPU on, OpenCL off, Vulkan off.
\<close>

theorem disable_gpu_forces_opencl_vulkan_off:
  "parse_args (''--disable-gpu'' # rest) c =
     parse_args rest
       (c\<lparr>config := (config c)\<lparr>install_gpu_blobs := False, enable_opencl := False,
                                enable_vulkan := False\<rparr>\<rparr>)
   \<and> parse_args (''--enable-gpu'' # rest) c =
     parse_args rest (c\<lparr>config := (config c)\<lparr>install_gpu_blobs := True\<rparr>\<rparr>)
   \<and> (parse_args (''--disable-gpu'' # rest) c = Parsed c' \<longrightarrow>
        (''--enable-opencl'' \<notin> set rest \<longrightarrow> \<not> enable_opencl (config c')) \<and>
        (''--enable-vulkan'' \<notin> set rest \<longrightarrow> \<not> enable_vulkan (config c')))
   \<and> parse_args [''--disable-gpu'', ''--enable-gpu''] default_cli =
     Parsed (default_cli\<lparr>config := default_config\<lparr>install_gpu_blobs := True,
       enable_opencl := False, enable_vulkan := False\<rparr>\<rparr>)"
proof -
  let ?off = "c\<lparr>config := (config c)\<lparr>install_gpu_blobs := False, enable_opencl := False,
                                enable_vulkan := False\<rparr>\<rparr>"
  have dis: "parse_args (''--disable-gpu'' # rest) c = parse_args rest ?off"
    by (simp add: parse_args.simps(2)[of "''--disable-gpu''" rest])
  have en: "parse_args (''--enable-gpu'' # rest) c =
      parse_args rest (c\<lparr>config := (config c)\<lparr>install_gpu_blobs := True\<rparr>\<rparr>)"
    by (simp add: parse_args.simps(2)[of "''--enable-gpu''" rest])
  have ocl: "\<not> enable_opencl (config c')"
    if "parse_args (''--disable-gpu'' # rest) c = Parsed c'" "''--enable-opencl'' \<notin> set rest"
    using that opencl_off_sat[of rest ?off] by (simp add: dis)
  have vk: "\<not> enable_vulkan (config c')"
    if "parse_args (''--disable-gpu'' # rest) c = Parsed c'" "''--enable-vulkan'' \<notin> set rest"
    using that vulkan_off_sat[of rest ?off] by (simp add: dis)
  have ex: "parse_args [''--disable-gpu'', ''--enable-gpu''] default_cli =
     Parsed (default_cli\<lparr>config := default_config\<lparr>install_gpu_blobs := True,
       enable_opencl := False, enable_vulkan := False\<rparr>\<rparr>)"
    by (simp add: parse_args.simps(2) default_cli_def default_config_def)
  from dis en ocl vk ex show ?thesis by blast
qed

theorem disable_gpu_forces_opencl_vulkan_off_witness:
  "parse_args (''--disable-gpu'' # [''--verbose'', ''--enable-gpu'']) default_cli =
     Parsed (default_cli\<lparr>config := default_config\<lparr>verbose := True, install_gpu_blobs := True,
       enable_opencl := False, enable_vulkan := False\<rparr>\<rparr>)
   \<and> ''--enable-opencl'' \<notin> set [''--verbose'', ''--enable-gpu'']
   \<and> ''--enable-vulkan'' \<notin> set [''--verbose'', ''--enable-gpu'']
   \<and> \<not> enable_opencl (config (default_cli\<lparr>config := default_config\<lparr>verbose := True,
       install_gpu_blobs := True, enable_opencl := False, enable_vulkan := False\<rparr>\<rparr>))
   \<and> \<not> enable_vulkan (config (default_cli\<lparr>config := default_config\<lparr>verbose := True,
       install_gpu_blobs := True, enable_opencl := False, enable_vulkan := False\<rparr>\<rparr>))"
  using disable_gpu_forces_opencl_vulkan_off
    [of "[''--verbose'', ''--enable-gpu'']" default_cli
        "default_cli\<lparr>config := default_config\<lparr>verbose := True, install_gpu_blobs := True,
           enable_opencl := False, enable_vulkan := False\<rparr>\<rparr>"]
  by (simp add: parse_args.simps(2) default_cli_def default_config_def)

section \<open>The job count\<close>

text \<open>
  C4, as stated, fails for the value 0: \<^verbatim>\<open>-j 0\<close> leaves \<^verbatim>\<open>jobs\<close> at 0, which \<^verbatim>\<open>main\<close>
  then replaces by the processor count (here 4). It also fails for a value that does not
  fit an \<^verbatim>\<open>int\<close>: \<^verbatim>\<open>-j 2147483648\<close> gives the job count \<open>-2147483648\<close>.
\<close>

theorem jobs_zero_counterexample:
  "parse_args [''-j'', ''0''] default_cli = Parsed default_cli
   \<and> jobs (default_jobs 4 (config default_cli)) \<noteq> 0
   \<and> parse_args [''-j'', ''2147483648''] default_cli =
       Parsed (default_cli\<lparr>config := default_config\<lparr>jobs := - 2147483648\<rparr>\<rparr>)
   \<and> jobs (default_jobs 4 (default_config\<lparr>jobs := - 2147483648\<rparr>)) = - 2147483648"
  by (simp add: parse_args.simps(2) default_cli_def default_config_def default_jobs_def
      atoi_def strtol_def int_of_long_def LONG_MIN_def LONG_MAX_def isspace_def isdigit_def)

text \<open>
  C4, amended. Let \<open>np\<close> be the count of online processors that \<^verbatim>\<open>sysconf\<close> reports, as
  the \<^verbatim>\<open>int\<close> that the program stores: \<open>np\<close> itself when \<open>-2147483648 \<le> np \<le> 2147483647\<close>,
  its low 32 bits read as signed otherwise. In a run that gets past the argument loop,
  with no \<^verbatim>\<open>-j\<close> or \<^verbatim>\<open>--jobs\<close> among the arguments the job count is \<open>np\<close>. After \<^verbatim>\<open>-j n\<close>
  (or \<^verbatim>\<open>--jobs n\<close>) processed at any position, with \<open>n\<close> written as a decimal integer and
  no \<^verbatim>\<open>-j\<close> or \<^verbatim>\<open>--jobs\<close> among the later arguments, the job count is \<open>n\<close> when
  \<open>-2147483648 \<le> n \<le> 2147483647\<close> and \<open>n\<close> is not 0 (1 and the negative values included),
  and \<open>np\<close> when \<open>n\<close> is 0. For any \<open>n\<close>, in that range or not, the job count is the value
  \<open>v\<close> of the low 32 bits, read as signed, of \<open>n\<close> limited to the range of a 64-bit
  \<^verbatim>\<open>long\<close>, when \<open>v\<close> is not 0, and \<open>np\<close> when \<open>v\<close> is 0.
\<close>

theorem jobs_default_or_nonzero_literal:
  "(''-j'' \<notin> set args \<and> ''--jobs'' \<notin> set args \<and> parse_args args default_cli = Parsed c' \<longrightarrow>
      jobs (default_jobs np (config c')) = int_of_long np)
   \<and> ((f = ''-j'' \<or> f = ''--jobs'') \<and> ''-j'' \<notin> set post \<and> ''--jobs'' \<notin> set post \<and>
        parse_args (f # decimal_literal n # post) c = Parsed c'' \<longrightarrow>
      jobs (default_jobs np (config c'')) =
        (if int_of_long (max LONG_MIN (min LONG_MAX n)) = 0 then int_of_long np
         else int_of_long (max LONG_MIN (min LONG_MAX n)))
      \<and> (INT_MIN \<le> n \<and> n \<le> INT_MAX \<longrightarrow>
           jobs (default_jobs np (config c'')) = (if n = 0 then int_of_long np else n)))
   \<and> (INT_MIN \<le> np \<and> np \<le> INT_MAX \<longrightarrow> int_of_long np = np)"
proof -
  have a: "jobs (default_jobs np (config c')) = int_of_long np"
    if "''-j'' \<notin> set args" "''--jobs'' \<notin> set args" "parse_args args default_cli = Parsed c'"
  proof -
    have "jobs (config c') = 0"
      using that jobs_kept_sat[of args default_cli 0]
      by (simp add: default_cli_def default_config_def)
    then show ?thesis by (simp add: default_jobs_def)
  qed
  have b: "jobs (default_jobs np (config c'')) =
        (if int_of_long (max LONG_MIN (min LONG_MAX n)) = 0 then int_of_long np
         else int_of_long (max LONG_MIN (min LONG_MAX n)))"
    if f: "f = ''-j'' \<or> f = ''--jobs''" and post: "''-j'' \<notin> set post" "''--jobs'' \<notin> set post"
      and p: "parse_args (f # decimal_literal n # post) c = Parsed c''"
  proof -
    let ?c1 = "c\<lparr>config := (config c)\<lparr>jobs := atoi (decimal_literal n)\<rparr>\<rparr>"
    have "parse_args (f # decimal_literal n # post) c = parse_args post ?c1"
      using f by (auto simp add: parse_args.simps(2)[of f "decimal_literal n # post"])
    with p have "parse_args post ?c1 = Parsed c''" by simp
    then have "jobs (config c'') = int_of_long (max LONG_MIN (min LONG_MAX n))"
      using post jobs_kept_sat[of post ?c1 "int_of_long (max LONG_MIN (min LONG_MAX n))"]
      by (simp add: atoi_def strtol_decimal_literal)
    then show ?thesis by (simp add: default_jobs_def)
  qed
  have r: "int_of_long (max LONG_MIN (min LONG_MAX n)) = n" if "INT_MIN \<le> n" "n \<le> INT_MAX"
    using that by (simp add: int_of_long_def INT_MIN_def INT_MAX_def LONG_MIN_def LONG_MAX_def)
  have r': "int_of_long np = np" if "INT_MIN \<le> np" "np \<le> INT_MAX"
    using that by (rule int_of_long_in_range)
  from a b r r' show ?thesis by (simp del: max.bounded_iff min.bounded_iff)
qed

lemma decimal_literal_examples:
  "decimal_literal 1 = ''1''" "decimal_literal 0 = ''0''" "decimal_literal (- 12) = ''-12''"
  by code_simp+

theorem jobs_default_or_nonzero_literal_witness:
  "''-j'' \<notin> set [''--clean''] \<and> ''--jobs'' \<notin> set [''--clean'']
   \<and> parse_args [''--clean''] default_cli =
       Parsed (default_cli\<lparr>config := default_config\<lparr>clean_build := True\<rparr>\<rparr>)
   \<and> jobs (default_jobs 8 (config (default_cli\<lparr>config := default_config\<lparr>clean_build := True\<rparr>\<rparr>))) = 8
   \<and> INT_MIN \<le> 8 \<and> 8 \<le> INT_MAX \<and> int_of_long 8 = 8
   \<and> INT_MIN \<le> 1 \<and> 1 \<le> INT_MAX \<and> ''-j'' \<notin> set [''--clean''] \<and> decimal_literal 1 = ''1''
   \<and> parse_args (''--jobs'' # decimal_literal 1 # [''--clean'']) default_cli =
       Parsed (default_cli\<lparr>config := default_config\<lparr>jobs := 1, clean_build := True\<rparr>\<rparr>)
   \<and> jobs (default_jobs 8
         (config (default_cli\<lparr>config := default_config\<lparr>jobs := 1, clean_build := True\<rparr>\<rparr>))) = 1"
  using jobs_default_or_nonzero_literal
    [of "[''--clean'']" "default_cli\<lparr>config := default_config\<lparr>clean_build := True\<rparr>\<rparr>" 8
        "''--jobs''" "[''--clean'']" 1 default_cli
        "default_cli\<lparr>config := default_config\<lparr>jobs := 1, clean_build := True\<rparr>\<rparr>"]
  by (simp add: parse_args.simps(2) default_cli_def default_config_def default_jobs_def
      decimal_literal_examples atoi_def strtol_def int_of_long_def LONG_MIN_def LONG_MAX_def
      isspace_def isdigit_def INT_MIN_def INT_MAX_def)

section \<open>Traces, files and commands\<close>

lemma trace_emit [simp]: "trace (emit ev s) = trace s @ [ev]"
  by (simp add: emit_def)

lemma log_fp_emit [simp]: "log_fp (emit ev s) = log_fp s"
  by (simp add: emit_def)

lemma trace_log_message [simp]: "trace (log_message l m s) = trace s @ [Log l m]"
  by (simp add: log_message_def)

lemma log_fp_log_message [simp]: "log_fp (log_message l m s) = log_fp s"
  by (simp add: log_message_def)

lemma events_since_append:
  "trace s' = trace s @ evs \<Longrightarrow> events_since s s' = evs"
  by (simp add: events_since_def)

lemma trace_fprintf_each [simp]:
  "trace (fprintf_each path texts s) = trace s @ map (Fprintf path) texts"
  unfolding fprintf_each_def by (induction texts arbitrary: s) simp_all

lemma log_fp_fprintf_each [simp]: "log_fp (fprintf_each path texts s) = log_fp s"
  unfolding fprintf_each_def by (induction texts arbitrary: s) simp_all

lemma stages_run_append [simp]: "stages_run (xs @ ys) = stages_run xs @ stages_run ys"
  by (simp add: stages_run_def map_filter_def)

lemma stages_run_Nil [simp]: "stages_run [] = []"
  by (simp add: stages_run_def map_filter_def)

lemma stages_run_Cons [simp]:
  "stages_run (ev # evs) =
     (case stage_of_event ev of None \<Rightarrow> stages_run evs | Some st \<Rightarrow> st # stages_run evs)"
  by (simp add: stages_run_def map_filter_def split: option.split)

lemma stages_run_fprintf [simp]: "stages_run (map (Fprintf path) texts) = []"
  by (induction texts) simp_all

lemma commands_run_append [simp]:
  "commands_run (xs @ ys) = commands_run xs @ commands_run ys"
  by (induction xs rule: commands_run.induct) simp_all

lemma file_output_append [simp]:
  "file_output path (xs @ ys) = file_output path xs @ file_output path ys"
  by (induction path xs rule: file_output.induct) simp_all

lemma commands_run_fprintf [simp]: "commands_run (map (Fprintf path) texts) = []"
  by (induction texts) simp_all

lemma file_output_fprintf [simp]: "file_output path (map (Fprintf path) texts) = concat texts"
  by (induction texts) simp_all

lemma noted_fold: "(if b then log_message level message s else s) = noted b level message s"
  by (simp add: noted_def)

lemma trace_noted:
  "trace (noted b level message s) = trace s @ (if b then [Log level message] else [])"
  by (simp add: noted_def)

lemma stages_noted [simp]:
  "level \<noteq> ''INFO'' \<Longrightarrow> stages_run (trace (noted b level message s)) = stages_run (trace s)"
  by (simp add: noted_def)

section \<open>execute_command\<close>

lemma tee_line_fits:
  "length cmd \<le> 2111 \<Longrightarrow>
   snprintf (MAX_CMD_LEN + 100) (cmd @ '' 2>&1 | tee -a '' @ LOG_FILE) = tee_line cmd"
  by (simp add: snprintf_def MAX_CMD_LEN_def LOG_FILE_def tee_line_def)

lemma program_commands_fit:
  "length (snprintf MAX_CMD_LEN text) \<le> 2111" "length install_command \<le> 2111"
  by (simp_all add: snprintf_def MAX_CMD_LEN_def install_command_def packages_def)

lemma execute_command_shown:
  "length cmd \<le> 2111 \<Longrightarrow>
   execute_command e cmd True s =
     (let r = system_rc e (trace s @ [Console (CommandEcho cmd)]) (tee_line cmd);
          s2 = emit (System (tee_line cmd) r) (emit (Console (CommandEcho cmd)) s)
      in if r \<noteq> 0 then (log_message ''ERROR'' ''Command failed'' s2, - 1) else (s2, 0))"
  using tee_line_fits[of cmd] by (simp add: execute_command_def Let_def)

lemma trace_execute_command:
  "trace (fst (execute_command e cmd b s)) = trace s @ exec_events e cmd b (trace s)"
  by (simp add: exec_events_def execute_command_def Let_def emit_def log_message_def)

lemma log_fp_execute_command [simp]: "log_fp (fst (execute_command e cmd b s)) = log_fp s"
  by (simp add: execute_command_def Let_def)

lemma file_output_exec_events [simp]: "file_output path (exec_events e cmd b h) = []"
  by (simp add: exec_events_def execute_command_def Let_def emit_def log_message_def)

lemma stages_run_exec_events [simp]: "stages_run (exec_events e cmd b h) = []"
  by (simp add: exec_events_def execute_command_def Let_def emit_def log_message_def)

lemma file_output_execute_command [simp]:
  "file_output path (trace (fst (execute_command e cmd b s))) = file_output path (trace s)"
  by (simp add: trace_execute_command)

lemma stages_execute_command [simp]:
  "stages_run (trace (fst (execute_command e cmd b s))) = stages_run (trace s)"
  by (simp add: trace_execute_command)

lemma execute_command_stagesD:
  "execute_command e cmd b s = (s', r) \<Longrightarrow> stages_run (trace s') = stages_run (trace s)"
  using stages_execute_command[of e cmd b s] by simp

text \<open>
  C3. For a command of at most 2111 characters (every command that the program passes
  fits), \<^verbatim>\<open>execute_command\<close> with \<^verbatim>\<open>show_output\<close> echoes the command, hands
  \<^verbatim>\<open>system\<close> the command followed by \<^verbatim>\<open> 2>&1 | tee -a /tmp/kernel_build.log\<close>, and
  returns 0 exactly when \<^verbatim>\<open>system\<close> returns 0, and -1 otherwise. When the shell reports
  the pipeline's status as that of its last element, \<^verbatim>\<open>tee\<close>, the result is 0 exactly
  when \<^verbatim>\<open>tee\<close> exits with 0, whatever the exit status of the wrapped command.
\<close>

theorem execute_command_show_output_status:
  "length cmd \<le> 2111 \<longrightarrow>
     (let line = cmd @ '' 2>&1 | tee -a /tmp/kernel_build.log'';
          r = system_rc e (trace s @ [Console (CommandEcho cmd)]) line
      in events_since s (fst (execute_command e cmd True s)) =
           [Console (CommandEcho cmd), System line r] @
           (if r \<noteq> 0 then [Log ''ERROR'' ''Command failed''] else [])
         \<and> snd (execute_command e cmd True s) = (if r = 0 then 0 else - 1)
         \<and> (\<forall>cmd_exit tee_exit. r = pipeline_wait_status cmd_exit tee_exit \<longrightarrow>
              (snd (execute_command e cmd True s) = 0 \<longleftrightarrow> tee_exit = 0)))"
proof
  assume len: "length cmd \<le> 2111"
  have line: "tee_line cmd = cmd @ '' 2>&1 | tee -a /tmp/kernel_build.log''"
    by (simp add: tee_line_def LOG_FILE_def)
  show "let line = cmd @ '' 2>&1 | tee -a /tmp/kernel_build.log'';
          r = system_rc e (trace s @ [Console (CommandEcho cmd)]) line
      in events_since s (fst (execute_command e cmd True s)) =
           [Console (CommandEcho cmd), System line r] @
           (if r \<noteq> 0 then [Log ''ERROR'' ''Command failed''] else [])
         \<and> snd (execute_command e cmd True s) = (if r = 0 then 0 else - 1)
         \<and> (\<forall>cmd_exit tee_exit. r = pipeline_wait_status cmd_exit tee_exit \<longrightarrow>
              (snd (execute_command e cmd True s) = 0 \<longleftrightarrow> tee_exit = 0))"
    unfolding execute_command_shown[OF len] line
    by (simp add: Let_def pipeline_wait_status_def events_since_def)
qed

theorem execute_command_show_output_status_witness:
  "length ''false'' \<le> 2111
   \<and> system_rc env_command_fails_tee_ok
        (trace proc_start @ [Console (CommandEcho ''false'')])
        (''false'' @ '' 2>&1 | tee -a /tmp/kernel_build.log'') = pipeline_wait_status 1 0
   \<and> snd (execute_command env_command_fails_tee_ok
          ''false'' True proc_start) = 0"
  using execute_command_show_output_status
    [of "''false''" env_command_fails_tee_ok proc_start]
  by (simp add: env_all_ok_def env_firmware_tee_fails_def env_command_fails_tee_ok_def env_commands_fail_def env_no_chdir_def env_no_fopen_def env_no_access_def pipeline_wait_status_def Let_def)

section \<open>The kernel source download\<close>







section \<open>The Vulkan descriptor\<close>






section \<open>The kernel configuration\<close>

lemma olddefconfig_length: "length ''make olddefconfig'' \<le> 2111"
  by simp

lemma file_output_fprintf_comp [simp]:
  "file_output path (map (Fprintf path \<circ> f) xs) = concat (map f xs)"
  by (induction xs) simp_all

lemma stages_run_fprintf_comp [simp]: "stages_run (map (Fprintf path \<circ> f) xs) = []"
  by (induction xs) simp_all

lemma commands_run_fprintf_comp [simp]: "commands_run (map (Fprintf path \<circ> f) xs) = []"
  by (induction xs) simp_all

text \<open>
  C10. Once the defconfig part of \<^verbatim>\<open>configure_kernel\<close> has succeeded, the function
  returns 0. When \<^verbatim>\<open>.config\<close> opens for appending, the text appended is the block of
  directives, one per line. When it does not open, the failed \<^verbatim>\<open>fopen\<close> is followed at
  once by the \<^verbatim>\<open>make olddefconfig\<close> command: nothing is written to \<^verbatim>\<open>.config\<close>, no
  message is logged about the failure, and the function ends with its success message.
\<close>

theorem configure_kernel_config_not_opened:
  "configure_kernel_defconfig e cfg s = (s1, 0) \<longrightarrow>
   (let h = trace s1 @
              [Log ''INFO''
                 ''Enabling RK3588, Mali GPU, and hardware acceleration configurations...''];
        s' = fst (configure_kernel e cfg s)
    in snd (configure_kernel e cfg s) = 0
       \<and> (fopen_ok e h ''.config'' ''a'' \<longrightarrow>
            file_output ''.config'' (events_since s1 s') =
              concat (map (\<lambda>opt. opt @ [newline]) config_options))
       \<and> (\<not> fopen_ok e h ''.config'' ''a'' \<longrightarrow>
            (let h' = h @ [Fopen ''.config'' ''a'' False,
                           Console (CommandEcho ''make olddefconfig'')];
                 r = system_rc e h' (tee_line ''make olddefconfig'')
             in trace s' =
                  h' @ [System (tee_line ''make olddefconfig'') r] @
                  (if r \<noteq> 0
                   then [Log ''ERROR'' ''Command failed'',
                         Log ''WARNING'' ''Failed to resolve config dependencies'']
                   else []) @
                  [Log ''SUCCESS'' ''Kernel configured successfully with Mali GPU support''])))"
  unfolding configure_kernel_def execute_command_shown[OF olddefconfig_length]
  by (simp add: append_config_options_def Let_def events_since_def)

theorem configure_kernel_config_not_opened_witness:
  "snd (configure_kernel_defconfig env_no_fopen
          default_config proc_start) = 0
   \<and> \<not> fopen_ok env_no_fopen
         (trace (fst (configure_kernel_defconfig
                        env_no_fopen
                        default_config proc_start)) @
          [Log ''INFO''
             ''Enabling RK3588, Mali GPU, and hardware acceleration configurations...''])
         ''.config'' ''a''
   \<and> snd (configure_kernel env_no_fopen
            default_config proc_start) = 0
   \<and> file_output ''.config''
        (trace (fst (configure_kernel env_no_fopen
                       default_config proc_start))) = []"
proof -
  let ?e = env_no_fopen
  have rc: "snd (configure_kernel_defconfig ?e default_config proc_start) = 0"
    by (simp add: configure_kernel_defconfig_def execute_command_def env_all_ok_def env_firmware_tee_fails_def env_command_fails_tee_ok_def env_commands_fail_def env_no_chdir_def env_no_fopen_def env_no_access_def
        default_config_def Let_def)
  have nf: "file_output ''.config''
      (trace (fst (configure_kernel_defconfig ?e default_config proc_start))) = []"
    by (simp add: configure_kernel_defconfig_def trace_execute_command env_all_ok_def env_firmware_tee_fails_def env_command_fails_tee_ok_def env_commands_fail_def env_no_chdir_def env_no_fopen_def env_no_access_def
        default_config_def proc_start_def Let_def split_beta)
  have eq: "configure_kernel_defconfig ?e default_config proc_start =
      (fst (configure_kernel_defconfig ?e default_config proc_start), 0)"
    using rc by (simp add: prod_eq_iff)
  have closed: "\<not> fopen_ok ?e h ''.config'' ''a''" for h
    by (simp add: env_all_ok_def env_firmware_tee_fails_def env_command_fails_tee_ok_def env_commands_fail_def env_no_chdir_def env_no_fopen_def env_no_access_def)
  show ?thesis
    using configure_kernel_config_not_opened
      [of ?e default_config proc_start
          "fst (configure_kernel_defconfig ?e default_config proc_start)"]
      eq rc nf closed
    by (simp add: Let_def)
qed

section \<open>The stages that a function runs\<close>

lemma create_directory_stagesD:
  "create_directory e path s = (s', r) \<Longrightarrow> stages_run (trace s') = stages_run (trace s)"
  by (auto simp add: create_directory_def Let_def split: if_splits)

lemma check_dependencies_stagesD:
  "check_dependencies e s = (s', r) \<Longrightarrow> stages_run (trace s') = stages_run (trace s)"
  by (auto simp add: check_dependencies_def Let_def split: if_splits option.splits)

lemma check_root_permissions_stagesD:
  "check_root_permissions e s = (s', r) \<Longrightarrow> stages_run (trace s') = stages_run (trace s)"
  by (auto simp add: check_root_permissions_def split: if_splits)

lemma main_error_stagesD:
  "main_error s = (s', r) \<Longrightarrow> stages_run (trace s') = stages_run (trace s) \<and> r = 1"
  by (auto simp add: main_error_def Let_def split: if_splits)

lemma setup_build_environment_stagesD:
  "setup_build_environment e s = (s', r) \<Longrightarrow>
   stages_run (trace s') = stages_run (trace s) @ [SetupBuildEnvironment]"
  by (auto simp add: setup_build_environment_def Let_def noted_fold
      split: prod.splits if_splits dest!: execute_command_stagesD create_directory_stagesD)

lemma install_prerequisites_stagesD:
  "install_prerequisites e s = (s', r) \<Longrightarrow>
   stages_run (trace s') = stages_run (trace s) @ [InstallPrerequisites]"
  by (auto simp add: install_prerequisites_def Let_def noted_fold
      split: prod.splits if_splits dest!: execute_command_stagesD)

lemma stages_create_links [simp]:
  "stages_run (trace (create_links e ls s)) = stages_run (trace s)"
  by (induction ls arbitrary: s) (simp_all add: split_beta)

lemma download_mali_blobs_stagesD:
  "download_mali_blobs e cfg s = (s', r) \<Longrightarrow>
   stages_run (trace s') = stages_run (trace s) @ [DownloadMaliBlobs]"
  by (auto simp add: download_mali_blobs_def Let_def noted_fold
      split: prod.splits if_splits dest!: execute_command_stagesD create_directory_stagesD)

lemma install_mali_drivers_stagesD:
  "install_mali_drivers e cfg s = (s', r) \<Longrightarrow>
   stages_run (trace s') = stages_run (trace s) @ [InstallMaliDrivers]"
  by (auto simp add: install_mali_drivers_def Let_def noted_fold
      split: prod.splits if_splits dest!: execute_command_stagesD)

lemma setup_opencl_support_stagesD:
  "setup_opencl_support e cfg s = (s', r) \<Longrightarrow>
   stages_run (trace s') =
     stages_run (trace s) @ (if enable_opencl cfg then [SetupOpenclSupport] else [])"
  by (auto simp add: setup_opencl_support_def Let_def
      split: prod.splits if_splits dest!: create_directory_stagesD)

lemma setup_vulkan_support_stagesD:
  "setup_vulkan_support e cfg s = (s', r) \<Longrightarrow>
   stages_run (trace s') =
     stages_run (trace s) @ (if enable_vulkan cfg then [SetupVulkanSupport] else [])"
  by (auto simp add: setup_vulkan_support_def Let_def
      split: prod.splits if_splits dest!: create_directory_stagesD)

lemma download_kernel_source_stagesD:
  "download_kernel_source e cfg s = (s', r) \<Longrightarrow>
   stages_run (trace s') = stages_run (trace s) @ [DownloadKernelSource]"
  by (auto simp add: download_kernel_source_def Let_def
      split: prod.splits if_splits dest!: execute_command_stagesD)

lemma download_ubuntu_rockchip_patches_stagesD:
  "download_ubuntu_rockchip_patches e s = (s', r) \<Longrightarrow>
   stages_run (trace s') = stages_run (trace s) @ [DownloadUbuntuRockchipPatches]"
  by (auto simp add: download_ubuntu_rockchip_patches_def Let_def
      split: prod.splits if_splits dest!: execute_command_stagesD)

lemma configure_kernel_defconfig_stagesD:
  "configure_kernel_defconfig e cfg s = (s', r) \<Longrightarrow>
   stages_run (trace s') = stages_run (trace s) @ [ConfigureKernel]"
  by (auto simp add: configure_kernel_defconfig_def Let_def noted_fold
      split: prod.splits if_splits dest!: execute_command_stagesD)

lemma stages_append_config_options [simp]:
  "stages_run (trace (append_config_options e s)) = stages_run (trace s)"
  by (simp add: append_config_options_def Let_def)

lemma configure_kernel_stagesD:
  "configure_kernel e cfg s = (s', r) \<Longrightarrow>
   stages_run (trace s') = stages_run (trace s) @ [ConfigureKernel]"
  by (auto simp add: configure_kernel_def Let_def noted_fold
      split: prod.splits if_splits
      dest!: execute_command_stagesD configure_kernel_defconfig_stagesD)

lemma build_kernel_stagesD:
  "build_kernel e cfg s = (s', r) \<Longrightarrow>
   stages_run (trace s') = stages_run (trace s) @ [BuildKernel]"
  by (auto simp add: build_kernel_def Let_def
      split: prod.splits if_splits dest!: execute_command_stagesD)

lemma install_kernel_stagesD:
  "install_kernel e cfg s = (s', r) \<Longrightarrow>
   stages_run (trace s') = stages_run (trace s) @ [InstallKernel]"
  by (auto simp add: install_kernel_def Let_def noted_fold
      split: prod.splits if_splits dest!: execute_command_stagesD)

lemma verify_gpu_installation_stagesD:
  "verify_gpu_installation e s = (s', r) \<Longrightarrow>
   stages_run (trace s') = stages_run (trace s) @ [VerifyGpuInstallation]"
  by (auto simp add: verify_gpu_installation_def Let_def
      split: prod.splits if_splits dest!: execute_command_stagesD)

lemma cleanup_build_stagesD:
  "cleanup_build e cfg s = (s', r) \<Longrightarrow>
   stages_run (trace s') = stages_run (trace s) @ [CleanupBuild]"
  by (auto simp add: cleanup_build_def Let_def noted_fold
      split: prod.splits if_splits dest!: execute_command_stagesD)

section \<open>The blocks of main\<close>

lemma default_jobs_fields [simp]:
  "install_gpu_blobs (default_jobs n cfg) = install_gpu_blobs cfg"
  "enable_opencl (default_jobs n cfg) = enable_opencl cfg"
  "enable_vulkan (default_jobs n cfg) = enable_vulkan cfg"
  by (simp_all add: default_jobs_def)

lemma gpu_stages_default_jobs [simp]: "gpu_stages (default_jobs n cfg) = gpu_stages cfg"
  by (simp add: gpu_stages_def)

lemma stages_verify [simp]:
  "stages_run (trace (fst (verify_gpu_installation e s))) =
     stages_run (trace s) @ [VerifyGpuInstallation]"
  using verify_gpu_installation_stagesD[of e s] by (cases "verify_gpu_installation e s") simp

lemma stages_cleanup [simp]:
  "stages_run (trace (fst (cleanup_build e cfg s))) = stages_run (trace s) @ [CleanupBuild]"
  using cleanup_build_stagesD[of e cfg s] by (cases "cleanup_build e cfg s") simp

lemma gpu_blobs_block_stagesD:
  "gpu_blobs_block e cfg s = (s', failed) \<Longrightarrow>
   (\<not> failed \<longrightarrow> stages_run (trace s') = stages_run (trace s) @ gpu_stages cfg) \<and>
   (failed \<longrightarrow> set (stages_run (trace s')) \<subseteq> set (stages_run (trace s)) \<union> set (gpu_stages cfg))"
  by (auto simp add: gpu_blobs_block_def gpu_stages_def
      split: prod.splits if_splits
      dest!: download_mali_blobs_stagesD install_mali_drivers_stagesD
        setup_opencl_support_stagesD setup_vulkan_support_stagesD)

lemma install_block_stagesD:
  "install_block e c cfg s = (s', failed) \<Longrightarrow>
   (\<not> failed \<longrightarrow> stages_run (trace s') =
      stages_run (trace s) @ (if no_install c then [] else [InstallKernel]) @
      (if \<not> no_install c \<and> verify_gpu c \<and> install_gpu_blobs cfg
       then [VerifyGpuInstallation] else [])) \<and>
   (failed \<longrightarrow> stages_run (trace s') =
      stages_run (trace s) @ (if no_install c then [] else [InstallKernel]))"
  by (auto simp add: install_block_def split: prod.splits if_splits
      dest!: install_kernel_stagesD)

section \<open>The runs of main\<close>

lemmas stagesD =
  check_dependencies_stagesD check_root_permissions_stagesD
  setup_build_environment_stagesD install_prerequisites_stagesD gpu_blobs_block_stagesD
  download_kernel_source_stagesD download_ubuntu_rockchip_patches_stagesD
  configure_kernel_stagesD build_kernel_stagesD install_block_stagesD

lemma outcome_ok_error:
  "outcome_ok c (main_error s) = (set (stages_run (trace s)) \<subseteq> set (fatal_stages c))"
  by (simp add: outcome_ok_def main_error_def Let_def)

lemma outcome_ok_early:
  "outcome_ok c (s, 1) = (set (stages_run (trace s)) \<subseteq> set (fatal_stages c))"
  by (simp add: outcome_ok_def)

lemma outcome_ok_success:
  "outcome_ok c (s, 0) = (stages_run (trace s) = planned_stages c)"
  by (simp add: outcome_ok_def)

lemma early_step:
  assumes "\<And>s1 r. f = (s1, r) \<Longrightarrow> r \<noteq> 0 \<Longrightarrow> Q (s1, 1)"
    and "\<And>s1 r. f = (s1, r) \<Longrightarrow> r = 0 \<Longrightarrow> Q (K s1)"
  shows "Q (case f of (s1, r) \<Rightarrow> if r \<noteq> (0::int) then (s1, 1::int) else K s1)"
  using assms by (cases f) simp

lemma fatal_step:
  assumes "\<And>s1 r. f = (s1, r) \<Longrightarrow> r \<noteq> 0 \<Longrightarrow> Q (main_error s1)"
    and "\<And>s1 r. f = (s1, r) \<Longrightarrow> r = 0 \<Longrightarrow> Q (K s1)"
  shows "Q (case f of (s1, r) \<Rightarrow> if r \<noteq> (0::int) then main_error s1 else K s1)"
  using assms by (cases f) simp

lemma block_step:
  assumes "\<And>s1. f = (s1, True) \<Longrightarrow> Q (main_error s1)"
    and "\<And>s1. f = (s1, False) \<Longrightarrow> Q (K s1)"
  shows "Q (case f of (s1, failed) \<Rightarrow> if failed then main_error s1 else K s1)"
  using assms by (cases f) auto

lemma plain_step:
  assumes "\<And>s1 r. f = (s1, r) \<Longrightarrow> Q (K s1)"
  shows "Q (case f of (s1, r) \<Rightarrow> K s1)"
  using assms by (cases f) simp

lemma main_outcome:
  assumes "parse_args argv default_cli = Parsed c"
  shows "outcome_ok c (main e argv)"
  unfolding main_def Let_def assms parse_result.case
  apply (rule early_step[where Q="outcome_ok c"])
   apply (simp add: outcome_ok_early)
   apply (drule stagesD, simp)
  apply (rule early_step[where Q="outcome_ok c"])
   apply (simp add: outcome_ok_early)
   apply ((drule stagesD)+, simp)
  apply (rule fatal_step[where Q="outcome_ok c"])
   apply (simp add: outcome_ok_error)
   apply ((drule stagesD)+, auto simp add: fatal_stages_def)[1]
  apply (rule fatal_step[where Q="outcome_ok c"])
   apply (simp add: outcome_ok_error)
   apply ((drule stagesD)+, auto simp add: fatal_stages_def)[1]
  apply (rule block_step[where Q="outcome_ok c"])
   apply (simp add: outcome_ok_error)
   apply ((drule stagesD)+, auto simp add: fatal_stages_def)[1]
  apply (rule fatal_step[where Q="outcome_ok c"])
   apply (simp add: outcome_ok_error)
   apply ((drule stagesD)+, auto simp add: fatal_stages_def)[1]
  apply (rule plain_step[where Q="outcome_ok c"])
  apply (rule fatal_step[where Q="outcome_ok c"])
   apply (simp add: outcome_ok_error)
   apply ((drule stagesD)+, auto simp add: fatal_stages_def)[1]
  apply (rule fatal_step[where Q="outcome_ok c"])
   apply (simp add: outcome_ok_error)
   apply ((drule stagesD)+, auto simp add: fatal_stages_def)[1]
  apply (rule block_step[where Q="outcome_ok c"])
   apply (simp add: outcome_ok_error)
   apply ((drule stagesD)+, auto simp add: fatal_stages_def)[1]
  apply (simp add: outcome_ok_success)
  apply ((drule stagesD)+, auto simp add: fatal_stages_def planned_stages_def)[1]
  done

lemma execute_command_ok [simp]: "all_ok e \<Longrightarrow> snd (execute_command e cmd b s) = 0"
  by (simp add: all_ok_def execute_command_def Let_def)

lemma create_directory_ok [simp]: "all_ok e \<Longrightarrow> create_directory e path s = (s, 0)"
  by (simp add: all_ok_def create_directory_def)

lemma check_dependencies_ok [simp]: "all_ok e \<Longrightarrow> snd (check_dependencies e s) = 0"
  by (simp add: all_ok_def check_dependencies_def Let_def)

lemma check_root_permissions_ok [simp]: "all_ok e \<Longrightarrow> snd (check_root_permissions e s) = 0"
  by (simp add: all_ok_def check_root_permissions_def)

lemma setup_build_environment_ok [simp]:
  "all_ok e \<Longrightarrow> snd (setup_build_environment e s) = 0"
  by (simp add: setup_build_environment_def Let_def split_beta all_ok_def)

lemma install_prerequisites_ok [simp]: "all_ok e \<Longrightarrow> snd (install_prerequisites e s) = 0"
  by (simp add: install_prerequisites_def Let_def split_beta)

lemma download_mali_blobs_ok [simp]: "all_ok e \<Longrightarrow> snd (download_mali_blobs e cfg s) = 0"
  by (simp add: download_mali_blobs_def Let_def split_beta all_ok_def)

lemma install_mali_drivers_ok [simp]: "all_ok e \<Longrightarrow> snd (install_mali_drivers e cfg s) = 0"
  by (simp add: install_mali_drivers_def Let_def split_beta)

lemma setup_opencl_support_ok [simp]: "all_ok e \<Longrightarrow> snd (setup_opencl_support e cfg s) = 0"
  by (simp add: setup_opencl_support_def Let_def split_beta all_ok_def)

lemma setup_vulkan_support_ok [simp]: "all_ok e \<Longrightarrow> snd (setup_vulkan_support e cfg s) = 0"
  by (simp add: setup_vulkan_support_def Let_def split_beta all_ok_def)

lemma gpu_blobs_block_ok [simp]: "all_ok e \<Longrightarrow> snd (gpu_blobs_block e cfg s) = False"
  by (simp add: gpu_blobs_block_def split_beta)

lemma download_kernel_source_ok [simp]:
  "all_ok e \<Longrightarrow> snd (download_kernel_source e cfg s) = 0"
  by (simp add: download_kernel_source_def Let_def split_beta all_ok_def)

lemma configure_kernel_ok [simp]: "all_ok e \<Longrightarrow> snd (configure_kernel e cfg s) = 0"
  by (simp add: configure_kernel_def configure_kernel_defconfig_def Let_def split_beta all_ok_def)

lemma build_kernel_ok [simp]: "all_ok e \<Longrightarrow> snd (build_kernel e cfg s) = 0"
  by (simp add: build_kernel_def Let_def split_beta)

lemma install_kernel_ok [simp]: "all_ok e \<Longrightarrow> snd (install_kernel e cfg s) = 0"
  by (simp add: install_kernel_def Let_def split_beta)

lemma install_block_ok [simp]: "all_ok e \<Longrightarrow> snd (install_block e c cfg s) = False"
  by (simp add: install_block_def split_beta)

lemma main_ok:
  assumes "all_ok e" and "parse_args argv default_cli = Parsed c"
  shows "snd (main e argv) = 0"
  using assms(1) by (simp add: main_def assms(2) Let_def split_beta)

section \<open>The commands of the kernel stages\<close>

lemma commands_run_noted [simp]:
  "commands_run (trace (noted b level message s)) = commands_run (trace s)"
  by (simp add: noted_def log_message_def emit_def)

lemma commands_run_log [simp]:
  "commands_run (trace (log_message level message s)) = commands_run (trace s)"
  by (simp add: log_message_def emit_def)

lemma execute_command_commandsD:
  "execute_command e cmd b s = (s', r) \<Longrightarrow>
   commands_run (trace s') = commands_run (trace s) @ [log_cmd b cmd] \<and>
   (r \<noteq> 0 \<and> b \<longrightarrow> \<not> succeeds e cmd)"
  by (auto simp add: execute_command_def Let_def log_cmd_def succeeds_def emit_def
      log_message_def split: if_splits)

lemma create_directory_commandsD:
  "create_directory e path s = (s', r) \<Longrightarrow>
   commands_run (trace s') = commands_run (trace s) \<and>
   (r \<noteq> 0 \<longrightarrow> \<not> (\<forall>h. stat_ok e h path \<or> mkdir_ok e h path))"
  by (auto simp add: create_directory_def Let_def emit_def split: if_splits)

lemma check_dependencies_commandsD:
  "check_dependencies e s = (s', r) \<Longrightarrow>
   commands_run (trace s') = commands_run (trace s) \<and>
   (r \<noteq> 0 \<longrightarrow> \<not> (\<forall>h. stat_ok e h ''/etc/debian_version''))"
  by (auto simp add: check_dependencies_def Let_def emit_def split: if_splits option.splits)

lemma check_root_permissions_commandsD:
  "check_root_permissions e s = (s', r) \<Longrightarrow>
   commands_run (trace s') = commands_run (trace s) \<and> (r \<noteq> 0 \<longrightarrow> euid e \<noteq> 0)"
  by (auto simp add: check_root_permissions_def split: if_splits)

lemma setup_build_environment_commandsD:
  "setup_build_environment e s = (s', r) \<Longrightarrow>
   (r = 0 \<longrightarrow> commands_run (trace s') = commands_run (trace s) @ [log_cmd True ''apt update'']) \<and>
   (r \<noteq> 0 \<longrightarrow> \<not> ((\<forall>h. stat_ok e h BUILD_DIR \<or> mkdir_ok e h BUILD_DIR) \<and>
                  succeeds e ''apt update''))"
  by (auto simp add: setup_build_environment_def Let_def noted_fold emit_def
      split: prod.splits if_splits
      dest!: execute_command_commandsD create_directory_commandsD)

lemma install_prerequisites_commandsD:
  "install_prerequisites e s = (s', r) \<Longrightarrow>
   (r = 0 \<longrightarrow> commands_run (trace s') =
      commands_run (trace s) @
      map (log_cmd True)
        [install_command, ''apt build-dep -y linux linux-image-unsigned-$(uname -r)'']) \<and>
   (r \<noteq> 0 \<longrightarrow> \<not> succeeds e install_command)"
  by (auto simp add: install_prerequisites_def Let_def noted_fold
      split: prod.splits if_splits dest!: execute_command_commandsD)

lemma execute_command_commands_onlyD:
  "execute_command e cmd b s = (s', r) \<Longrightarrow>
   commands_run (trace s') = commands_run (trace s) @ [log_cmd b cmd]"
  by (auto dest: execute_command_commandsD)

lemma download_kernel_source_commandsD:
  "download_kernel_source e cfg s = (s', r) \<Longrightarrow>
   r = 0 \<longrightarrow>
   commands_run (trace s') = commands_run (trace s) @ map (log_cmd True) [vendor_kernel_clone] \<or>
   commands_run (trace s') =
     commands_run (trace s) @
     map (log_cmd True) [vendor_kernel_clone, mainline_kernel_clone cfg] \<and>
   \<not> succeeds e vendor_kernel_clone"
  by (auto simp add: download_kernel_source_def Let_def emit_def
      split: prod.splits if_splits dest!: execute_command_commandsD)

lemma download_ubuntu_rockchip_patches_commandsD:
  "download_ubuntu_rockchip_patches e s = (s', r) \<Longrightarrow>
   commands_run (trace s') = commands_run (trace s) @ [log_cmd True patches_clone]"
  by (auto simp add: download_ubuntu_rockchip_patches_def Let_def patches_clone_def
      split: prod.splits if_splits dest!: execute_command_commands_onlyD)

lemma configure_kernel_defconfig_commandsD:
  "configure_kernel_defconfig e cfg s = (s', r) \<Longrightarrow>
   r = 0 \<longrightarrow>
   commands_run (trace s') =
     commands_run (trace s) @
     map (log_cmd True)
       ((if clean_build cfg then [''make mrproper''] else []) @ [defconfig_command cfg]) \<or>
   commands_run (trace s') =
     commands_run (trace s) @
     map (log_cmd True)
       ((if clean_build cfg then [''make mrproper''] else []) @
        [defconfig_command cfg, ''make defconfig'']) \<and>
   \<not> succeeds e (defconfig_command cfg)"
  by (auto simp add: configure_kernel_defconfig_def Let_def emit_def noted_fold
      defconfig_command_def
      split: prod.splits if_splits dest!: execute_command_commandsD)

lemma commands_append_config_options [simp]:
  "commands_run (trace (append_config_options e s)) = commands_run (trace s)"
  by (simp add: append_config_options_def Let_def emit_def)

lemma configure_kernel_commandsD:
  "configure_kernel e cfg s = (s', r) \<Longrightarrow>
   r = 0 \<longrightarrow>
   commands_run (trace s') =
     commands_run (trace s) @ map (log_cmd True) (configure_commands cfg False) \<or>
   commands_run (trace s') =
     commands_run (trace s) @ map (log_cmd True) (configure_commands cfg True) \<and>
   \<not> succeeds e (defconfig_command cfg)"
  by (auto simp add: configure_kernel_def Let_def noted_fold configure_commands_def
      split: prod.splits if_splits
      dest!: execute_command_commands_onlyD configure_kernel_defconfig_commandsD)

lemma build_kernel_commandsD:
  "build_kernel e cfg s = (s', r) \<Longrightarrow>
   r = 0 \<longrightarrow>
   commands_run (trace s') =
     commands_run (trace s) @ map (log_cmd True) (build_commands cfg)"
  by (auto simp add: build_kernel_def Let_def emit_def build_commands_def
      split: prod.splits if_splits dest!: execute_command_commands_onlyD)

lemma install_kernel_commandsD:
  "install_kernel e cfg s = (s', r) \<Longrightarrow>
   r = 0 \<longrightarrow>
   commands_run (trace s') =
      commands_run (trace s) @ map (log_cmd True) (install_commands cfg)"
  by (auto simp add: install_kernel_def Let_def noted_fold install_commands_def
      copy_image_command_def
      split: prod.splits if_splits dest!: execute_command_commands_onlyD)

lemma cleanup_build_commandsD:
  "cleanup_build e cfg s = (s', r) \<Longrightarrow>
   commands_run (trace s') =
     commands_run (trace s) @ map (log_cmd False) (cleanup_commands cfg)"
  by (auto simp add: cleanup_build_def Let_def noted_fold cleanup_commands_def
      split: prod.splits if_splits dest!: execute_command_commands_onlyD)

lemma execute_command_succeeds [simp]:
  "succeeds e cmd \<Longrightarrow> snd (execute_command e cmd True s) = 0"
  by (simp add: execute_command_def Let_def succeeds_def log_cmd_def)

lemma snd_execute_command: "snd (execute_command e cmd b s) = 0 \<or> snd (execute_command e cmd b s) = - 1"
  by (simp add: execute_command_def Let_def)

lemma create_directory_succeeds [simp]:
  "\<forall>h. stat_ok e h path \<or> mkdir_ok e h path \<Longrightarrow> snd (create_directory e path s) = 0"
  by (auto simp add: create_directory_def Let_def)

lemma check_dependencies_succeeds:
  "\<forall>h. stat_ok e h ''/etc/debian_version'' \<Longrightarrow> snd (check_dependencies e s) = 0"
  by (simp add: check_dependencies_def Let_def)

lemma check_root_permissions_succeeds:
  "euid e = 0 \<Longrightarrow> snd (check_root_permissions e s) = 0"
  by (simp add: check_root_permissions_def)

lemma setup_build_environment_succeeds:
  "\<forall>h. stat_ok e h BUILD_DIR \<or> mkdir_ok e h BUILD_DIR \<Longrightarrow> succeeds e ''apt update'' \<Longrightarrow>
   snd (setup_build_environment e s) = 0"
  by (simp add: setup_build_environment_def Let_def split_beta)

lemma install_prerequisites_succeeds:
  "succeeds e install_command \<Longrightarrow> snd (install_prerequisites e s) = 0"
  by (simp add: install_prerequisites_def Let_def split_beta)

lemma download_kernel_source_succeeds:
  "\<forall>h. chdir_ok e h (build_dir cfg) \<Longrightarrow>
   succeeds e vendor_kernel_clone \<or> succeeds e (mainline_kernel_clone cfg) \<Longrightarrow>
   snd (download_kernel_source e cfg s) = 0"
  by (auto simp add: download_kernel_source_def Let_def split_beta)

lemma configure_kernel_defconfig_succeeds:
  "\<forall>h. chdir_ok e h (snprintf MAX_PATH_LEN (build_dir cfg @ ''/linux'')) \<Longrightarrow>
   succeeds e (defconfig_command cfg) \<or> succeeds e ''make defconfig'' \<Longrightarrow>
   snd (configure_kernel_defconfig e cfg s) = 0"
  by (auto simp add: configure_kernel_defconfig_def Let_def split_beta defconfig_command_def)

lemma configure_kernel_succeeds:
  "\<forall>h. chdir_ok e h (snprintf MAX_PATH_LEN (build_dir cfg @ ''/linux'')) \<Longrightarrow>
   succeeds e (defconfig_command cfg) \<or> succeeds e ''make defconfig'' \<Longrightarrow>
   snd (configure_kernel e cfg s) = 0"
  by (simp add: configure_kernel_def Let_def split_beta configure_kernel_defconfig_succeeds)

lemma build_kernel_succeeds:
  "\<forall>cmd \<in> set (build_commands cfg). succeeds e cmd \<Longrightarrow> snd (build_kernel e cfg s) = 0"
  by (simp add: build_kernel_def Let_def split_beta build_commands_def)

lemma install_kernel_succeeds:
  "succeeds e ''make modules_install'' \<Longrightarrow> succeeds e (copy_image_command cfg) \<Longrightarrow>
   snd (install_kernel e cfg s) = 0"
  by (simp add: install_kernel_def Let_def split_beta copy_image_command_def)

lemma gpu_blobs_block_off: "\<not> install_gpu_blobs cfg \<Longrightarrow> gpu_blobs_block e cfg s = (s, False)"
  by (simp add: gpu_blobs_block_def)

lemma install_block_commandsD:
  "install_block e c cfg s = (s', failed) \<Longrightarrow>
   \<not> failed \<and> \<not> install_gpu_blobs cfg \<longrightarrow>
   commands_run (trace s') =
     commands_run (trace s) @
     (if no_install c then [] else map (log_cmd True) (install_commands cfg))"
  by (auto simp add: install_block_def split: prod.splits if_splits
      dest!: install_kernel_commandsD)

lemma install_block_succeeds:
  "no_install c \<or> succeeds e ''make modules_install'' \<and> succeeds e (copy_image_command cfg) \<Longrightarrow>
   \<not> snd (install_block e c cfg s)"
  by (auto simp add: install_block_def split_beta install_kernel_succeeds)

lemma commands_run_emit_other [simp]:
  "commands_run (trace (emit (Console x) s)) = commands_run (trace s)"
  "commands_run (trace (emit (Fclose p) s)) = commands_run (trace s)"
  by (simp_all add: emit_def)

lemma commands_cleanup [simp]:
  "commands_run (trace (fst (cleanup_build e cfg s))) =
     commands_run (trace s) @ map (log_cmd False) (cleanup_commands cfg)"
  using cleanup_build_commandsD[of e cfg s] by (cases "cleanup_build e cfg s") simp

lemmas commandsD =
  check_dependencies_commandsD check_root_permissions_commandsD
  setup_build_environment_commandsD install_prerequisites_commandsD
  download_kernel_source_commandsD download_ubuntu_rockchip_patches_commandsD
  configure_kernel_commandsD build_kernel_commandsD install_block_commandsD

lemma kernel_outcome_error [simp]: "kernel_outcome e c cfg (main_error s)"
  by (simp add: kernel_outcome_def main_error_def Let_def)

lemma kernel_outcome_early [simp]: "kernel_outcome e c cfg (s, 1)"
  by (simp add: kernel_outcome_def)

lemma main_kernel_outcome:
  assumes p: "parse_args argv default_cli = Parsed c"
    and off: "\<not> install_gpu_blobs (config c)"
  shows "kernel_outcome e c (default_jobs (nprocessors_onln e) (config c)) (main e argv)"
  unfolding main_def Let_def p parse_result.case
    gpu_blobs_block_off[of "default_jobs (nprocessors_onln e) (config c)", simplified, OF off]
    prod.case if_False
  apply (rule early_step[where Q="kernel_outcome e c (default_jobs (nprocessors_onln e) (config c))"])
   apply simp
  apply (rule early_step[where Q="kernel_outcome e c (default_jobs (nprocessors_onln e) (config c))"])
   apply simp
  apply (rule fatal_step[where Q="kernel_outcome e c (default_jobs (nprocessors_onln e) (config c))"])
   apply simp
  apply (rule fatal_step[where Q="kernel_outcome e c (default_jobs (nprocessors_onln e) (config c))"])
   apply simp
  apply (rule fatal_step[where Q="kernel_outcome e c (default_jobs (nprocessors_onln e) (config c))"])
   apply simp
  apply (rule plain_step[where Q="kernel_outcome e c (default_jobs (nprocessors_onln e) (config c))"])
  apply (rule fatal_step[where Q="kernel_outcome e c (default_jobs (nprocessors_onln e) (config c))"])
   apply simp
  apply (rule fatal_step[where Q="kernel_outcome e c (default_jobs (nprocessors_onln e) (config c))"])
   apply simp
  apply (rule block_step[where Q="kernel_outcome e c (default_jobs (nprocessors_onln e) (config c))"])
   apply simp
  apply (drule commandsD)+
  apply (insert off)
  apply (auto simp add: kernel_outcome_def kernel_commands_def prerequisite_commands_def
      source_commands_def ex_bool_eq emit_def)
  done

lemma main_kernel_steps_succeed:
  assumes p: "parse_args argv default_cli = Parsed c"
    and off: "\<not> install_gpu_blobs (config c)"
    and ok: "kernel_steps_succeed e c (default_jobs (nprocessors_onln e) (config c))"
  shows "snd (main e argv) = 0"
proof -
  let ?cfg = "default_jobs (nprocessors_onln e) (config c)"
  have d: "snd (check_dependencies e s) = 0" for s
    using ok by (simp add: kernel_steps_succeed_def check_dependencies_succeeds)
  have r: "snd (check_root_permissions e s) = 0" for s
    using ok by (simp add: kernel_steps_succeed_def check_root_permissions_succeeds)
  have sb: "snd (setup_build_environment e s) = 0" for s
    using ok by (simp add: kernel_steps_succeed_def setup_build_environment_succeeds)
  have ip: "snd (install_prerequisites e s) = 0" for s
    using ok by (simp add: kernel_steps_succeed_def install_prerequisites_succeeds)
  have g: "gpu_blobs_block e ?cfg s = (s, False)" for s
    using off by (simp add: gpu_blobs_block_off)
  have dk: "snd (download_kernel_source e ?cfg s) = 0" for s
    using ok by (simp add: kernel_steps_succeed_def download_kernel_source_succeeds)
  have ck: "snd (configure_kernel e ?cfg s) = 0" for s
    using ok by (simp add: kernel_steps_succeed_def configure_kernel_succeeds)
  have bk: "snd (build_kernel e ?cfg s) = 0" for s
    using ok by (simp add: kernel_steps_succeed_def build_kernel_succeeds)
  have ib: "\<not> snd (install_block e c ?cfg s)" for s
    using ok by (simp add: kernel_steps_succeed_def install_block_succeeds)
  show ?thesis
    by (simp add: main_def p Let_def split_beta d r sb ip g dk ck bk ib)
qed

lemma setup_build_environment_commands_subD:
  "setup_build_environment e s = (s', r) \<Longrightarrow>
   set (commands_run (trace s')) \<subseteq> set (commands_run (trace s)) \<union> {log_cmd True ''apt update''}"
  by (auto simp add: setup_build_environment_def Let_def noted_fold emit_def
      split: prod.splits if_splits
      dest!: execute_command_commands_onlyD create_directory_commandsD)

lemma install_prerequisites_commands_subD:
  "install_prerequisites e s = (s', r) \<Longrightarrow>
   set (commands_run (trace s')) \<subseteq>
     set (commands_run (trace s)) \<union>
     log_cmd True `
       {install_command, ''apt build-dep -y linux linux-image-unsigned-$(uname -r)''}"
  by (auto simp add: install_prerequisites_def Let_def noted_fold
      split: prod.splits if_splits dest!: execute_command_commands_onlyD)

lemma download_kernel_source_commands_subD:
  "download_kernel_source e cfg s = (s', r) \<Longrightarrow>
   set (commands_run (trace s')) \<subseteq>
     set (commands_run (trace s)) \<union>
     log_cmd True ` {vendor_kernel_clone, mainline_kernel_clone cfg}"
  by (auto simp add: download_kernel_source_def Let_def emit_def
      split: prod.splits if_splits dest!: execute_command_commands_onlyD)

lemma configure_kernel_defconfig_commands_subD:
  "configure_kernel_defconfig e cfg s = (s', r) \<Longrightarrow>
   set (commands_run (trace s')) \<subseteq>
     set (commands_run (trace s)) \<union>
     log_cmd True ` set (configure_commands cfg True)"
  by (auto simp add: configure_kernel_defconfig_def Let_def emit_def noted_fold
      defconfig_command_def configure_commands_def
      split: prod.splits if_splits dest!: execute_command_commands_onlyD)

lemma configure_kernel_commands_subD:
  "configure_kernel e cfg s = (s', r) \<Longrightarrow>
   set (commands_run (trace s')) \<subseteq>
     set (commands_run (trace s)) \<union>
     log_cmd True ` set (configure_commands cfg True)"
  by (auto simp add: configure_kernel_def Let_def noted_fold configure_commands_def
      split: prod.splits if_splits
      dest!: execute_command_commands_onlyD configure_kernel_defconfig_commands_subD)

lemma build_kernel_commands_subD:
  "build_kernel e cfg s = (s', r) \<Longrightarrow>
   set (commands_run (trace s')) \<subseteq>
     set (commands_run (trace s)) \<union> log_cmd True ` set (build_commands cfg)"
  by (auto simp add: build_kernel_def Let_def emit_def build_commands_def
      split: prod.splits if_splits dest!: execute_command_commands_onlyD)

lemma install_kernel_commands_subD:
  "install_kernel e cfg s = (s', r) \<Longrightarrow>
   set (commands_run (trace s')) \<subseteq>
     set (commands_run (trace s)) \<union> log_cmd True ` set (install_commands cfg)"
  by (auto simp add: install_kernel_def Let_def noted_fold install_commands_def
      copy_image_command_def
      split: prod.splits if_splits dest!: execute_command_commands_onlyD)

lemma install_block_commands_subD:
  "install_block e c cfg s = (s', failed) \<Longrightarrow>
   \<not> install_gpu_blobs cfg \<longrightarrow>
   set (commands_run (trace s')) \<subseteq>
     set (commands_run (trace s)) \<union>
     (if no_install c then {} else log_cmd True ` set (install_commands cfg))"
  by (auto simp add: install_block_def split: prod.splits if_splits
      dest!: install_kernel_commands_subD)

lemma check_dependencies_commands_subD:
  "check_dependencies e s = (s', r) \<Longrightarrow> commands_run (trace s') = commands_run (trace s)"
  by (auto dest: check_dependencies_commandsD)

lemma check_root_permissions_commands_subD:
  "check_root_permissions e s = (s', r) \<Longrightarrow> commands_run (trace s') = commands_run (trace s)"
  by (auto dest: check_root_permissions_commandsD)

lemma check_dependencies_within:
  "check_dependencies e s = (s', r) \<Longrightarrow> {} \<subseteq> K \<Longrightarrow>
   set (commands_run (trace s)) \<subseteq> K \<Longrightarrow> set (commands_run (trace s')) \<subseteq> K"
  by (drule check_dependencies_commands_subD) simp

lemma check_root_permissions_within:
  "check_root_permissions e s = (s', r) \<Longrightarrow> {} \<subseteq> K \<Longrightarrow>
   set (commands_run (trace s)) \<subseteq> K \<Longrightarrow> set (commands_run (trace s')) \<subseteq> K"
  by (drule check_root_permissions_commands_subD) simp

lemma setup_build_environment_within:
  "setup_build_environment e s = (s', r) \<Longrightarrow> {log_cmd True ''apt update''} \<subseteq> K \<Longrightarrow>
   set (commands_run (trace s)) \<subseteq> K \<Longrightarrow> set (commands_run (trace s')) \<subseteq> K"
  by (drule setup_build_environment_commands_subD) (simp; blast?)

lemma install_prerequisites_within:
  "install_prerequisites e s = (s', r) \<Longrightarrow> log_cmd True `
     {install_command, ''apt build-dep -y linux linux-image-unsigned-$(uname -r)''} \<subseteq> K \<Longrightarrow>
   set (commands_run (trace s)) \<subseteq> K \<Longrightarrow> set (commands_run (trace s')) \<subseteq> K"
  by (drule install_prerequisites_commands_subD) (simp; blast?)

lemma download_kernel_source_within:
  "download_kernel_source e cfg s = (s', r) \<Longrightarrow> log_cmd True ` {vendor_kernel_clone, mainline_kernel_clone cfg} \<subseteq> K \<Longrightarrow>
   set (commands_run (trace s)) \<subseteq> K \<Longrightarrow> set (commands_run (trace s')) \<subseteq> K"
  by (drule download_kernel_source_commands_subD) (simp; blast?)

lemma download_ubuntu_rockchip_patches_within:
  "download_ubuntu_rockchip_patches e s = (s', r) \<Longrightarrow> {log_cmd True patches_clone} \<subseteq> K \<Longrightarrow>
   set (commands_run (trace s)) \<subseteq> K \<Longrightarrow> set (commands_run (trace s')) \<subseteq> K"
  by (drule download_ubuntu_rockchip_patches_commandsD) (simp; blast?)

lemma configure_kernel_within:
  "configure_kernel e cfg s = (s', r) \<Longrightarrow> log_cmd True ` set (configure_commands cfg True) \<subseteq> K \<Longrightarrow>
   set (commands_run (trace s)) \<subseteq> K \<Longrightarrow> set (commands_run (trace s')) \<subseteq> K"
  by (drule configure_kernel_commands_subD) (simp; blast?)

lemma build_kernel_within:
  "build_kernel e cfg s = (s', r) \<Longrightarrow> log_cmd True ` set (build_commands cfg) \<subseteq> K \<Longrightarrow>
   set (commands_run (trace s)) \<subseteq> K \<Longrightarrow> set (commands_run (trace s')) \<subseteq> K"
  by (drule build_kernel_commands_subD) (simp; blast?)

lemma install_block_within:
  "install_block e c cfg s = (s', r) \<Longrightarrow>
   (if no_install c then {} else log_cmd True ` set (install_commands cfg)) \<subseteq> K \<Longrightarrow>
   set (commands_run (trace s)) \<subseteq> K \<Longrightarrow> \<not> install_gpu_blobs cfg \<Longrightarrow>
   set (commands_run (trace s')) \<subseteq> K"
  by (drule install_block_commands_subD) (simp; blast?)


lemmas commands_within =
  check_dependencies_within check_root_permissions_within setup_build_environment_within install_prerequisites_within download_kernel_source_within download_ubuntu_rockchip_patches_within configure_kernel_within build_kernel_within install_block_within

lemmas kernel_commands_simps =
  kernel_commands_def prerequisite_commands_def source_commands_def

lemma kernel_commands_contain:
  "{} \<subseteq> set (kernel_commands c cfg True True)"
  "{log_cmd True ''apt update''} \<subseteq> set (kernel_commands c cfg True True)"
  "log_cmd True `
     {install_command, ''apt build-dep -y linux linux-image-unsigned-$(uname -r)''}
     \<subseteq> set (kernel_commands c cfg True True)"
  "log_cmd True ` {vendor_kernel_clone, mainline_kernel_clone cfg}
     \<subseteq> set (kernel_commands c cfg True True)"
  "{log_cmd True patches_clone} \<subseteq> set (kernel_commands c cfg True True)"
  "log_cmd True ` set (configure_commands cfg True) \<subseteq> set (kernel_commands c cfg True True)"
  "log_cmd True ` set (build_commands cfg) \<subseteq> set (kernel_commands c cfg True True)"
  "(if no_install c then {} else log_cmd True ` set (install_commands cfg))
     \<subseteq> set (kernel_commands c cfg True True)"
  by (auto simp add: kernel_commands_def prerequisite_commands_def source_commands_def)

lemma commands_main_error [simp]:
  "commands_run (trace (fst (main_error s))) = commands_run (trace s)"
  by (simp add: main_error_def Let_def emit_def)

lemma snd_main_error [simp]: "snd (main_error s) = 1"
  by (simp add: main_error_def Let_def)

lemma main_failed_only_kernel_commands:
  assumes p: "parse_args argv default_cli = Parsed c"
    and off: "\<not> install_gpu_blobs (config c)"
  shows "snd (main e argv) \<noteq> 0 \<longrightarrow>
         set (commands_run (trace (fst (main e argv)))) \<subseteq>
         set (kernel_commands c (default_jobs (nprocessors_onln e) (config c)) True True)"
  unfolding main_def Let_def p parse_result.case
    gpu_blobs_block_off[of "default_jobs (nprocessors_onln e) (config c)", simplified, OF off]
    prod.case if_False
  apply (rule early_step[where Q="\<lambda>res. snd res \<noteq> 0 \<longrightarrow> set (commands_run (trace (fst res))) \<subseteq>
        set (kernel_commands c (default_jobs (nprocessors_onln e) (config c)) True True)"])
   apply (insert off, simp, (erule commands_within, rule kernel_commands_contain, simp?)+, simp?)[1]
  apply (rule early_step[where Q="\<lambda>res. snd res \<noteq> 0 \<longrightarrow> set (commands_run (trace (fst res))) \<subseteq>
        set (kernel_commands c (default_jobs (nprocessors_onln e) (config c)) True True)"])
   apply (insert off, simp, (erule commands_within, rule kernel_commands_contain, simp?)+, simp?)[1]
  apply (rule fatal_step[where Q="\<lambda>res. snd res \<noteq> 0 \<longrightarrow> set (commands_run (trace (fst res))) \<subseteq>
        set (kernel_commands c (default_jobs (nprocessors_onln e) (config c)) True True)"])
   apply (insert off, simp, (erule commands_within, rule kernel_commands_contain, simp?)+, simp?)[1]
  apply (rule fatal_step[where Q="\<lambda>res. snd res \<noteq> 0 \<longrightarrow> set (commands_run (trace (fst res))) \<subseteq>
        set (kernel_commands c (default_jobs (nprocessors_onln e) (config c)) True True)"])
   apply (insert off, simp, (erule commands_within, rule kernel_commands_contain, simp?)+, simp?)[1]
  apply (rule fatal_step[where Q="\<lambda>res. snd res \<noteq> 0 \<longrightarrow> set (commands_run (trace (fst res))) \<subseteq>
        set (kernel_commands c (default_jobs (nprocessors_onln e) (config c)) True True)"])
   apply (insert off, simp, (erule commands_within, rule kernel_commands_contain, simp?)+, simp?)[1]
  apply (rule plain_step[where Q="\<lambda>res. snd res \<noteq> 0 \<longrightarrow> set (commands_run (trace (fst res))) \<subseteq>
        set (kernel_commands c (default_jobs (nprocessors_onln e) (config c)) True True)"])
  apply (rule fatal_step[where Q="\<lambda>res. snd res \<noteq> 0 \<longrightarrow> set (commands_run (trace (fst res))) \<subseteq>
        set (kernel_commands c (default_jobs (nprocessors_onln e) (config c)) True True)"])
   apply (insert off, simp, (erule commands_within, rule kernel_commands_contain, simp?)+, simp?)[1]
  apply (rule fatal_step[where Q="\<lambda>res. snd res \<noteq> 0 \<longrightarrow> set (commands_run (trace (fst res))) \<subseteq>
        set (kernel_commands c (default_jobs (nprocessors_onln e) (config c)) True True)"])
   apply (insert off, simp, (erule commands_within, rule kernel_commands_contain, simp?)+, simp?)[1]
  apply (rule block_step[where Q="\<lambda>res. snd res \<noteq> 0 \<longrightarrow> set (commands_run (trace (fst res))) \<subseteq>
        set (kernel_commands c (default_jobs (nprocessors_onln e) (config c)) True True)"])
   apply (insert off, simp, (erule commands_within, rule kernel_commands_contain, simp?)+, simp?)[1]
  apply simp
  done

lemma kernel_commands_mono:
  "set (kernel_commands c cfg fb1 fb2) \<subseteq> set (kernel_commands c cfg True True)"
  by (auto simp add: kernel_commands_def source_commands_def configure_commands_def)

lemma main_only_kernel_commands:
  assumes p: "parse_args argv default_cli = Parsed c"
    and off: "\<not> install_gpu_blobs (config c)"
  shows "set (commands_run (trace (fst (main e argv)))) \<subseteq>
         set (kernel_commands c (default_jobs (nprocessors_onln e) (config c)) True True)"
proof (cases "snd (main e argv) = 0")
  case True
  with main_kernel_outcome[OF p off, of e] obtain fb1 fb2 where
    "commands_run (trace (fst (main e argv))) =
       kernel_commands c (default_jobs (nprocessors_onln e) (config c)) fb1 fb2"
    by (auto simp add: kernel_outcome_def)
  then show ?thesis by (simp add: kernel_commands_mono)
next
  case False
  with main_failed_only_kernel_commands[OF p off, of e] show ?thesis by simp
qed

section \<open>The firmware download\<close>

lemma firmware_download_length: "length firmware_download \<le> 2111"
  by (simp add: firmware_download_def)

lemma download_mali_blobs_firmware_fails:
  assumes "\<forall>h. system_rc e h (tee_line firmware_download) \<noteq> 0"
  shows "snd (download_mali_blobs e cfg s) = - 1 \<and>
         set (commands_run (events_since s (fst (download_mali_blobs e cfg s))))
           \<subseteq> {tee_line firmware_download}"
  unfolding download_mali_blobs_def execute_command_shown[OF firmware_download_length]
  using assms by (simp add: create_directory_def Let_def events_since_def)

lemma gpu_blobs_block_firmware_fails:
  assumes "\<forall>h. system_rc e h (tee_line firmware_download) \<noteq> 0"
    and "install_gpu_blobs cfg" and "gpu_blobs_block e cfg s = (s', failed)"
  shows "failed \<and> stages_run (trace s') = stages_run (trace s) @ [DownloadMaliBlobs]"
proof -
  obtain g1 q1 where d: "download_mali_blobs e cfg s = (g1, q1)"
    by (cases "download_mali_blobs e cfg s")
  have "q1 = - 1"
    using download_mali_blobs_firmware_fails[OF assms(1), of cfg s] d by simp
  with d assms(2,3) have "s' = g1" "failed"
    by (simp_all add: gpu_blobs_block_def)
  with download_mali_blobs_stagesD[OF d] show ?thesis by simp
qed

lemma aborted_at_blobs_error:
  "aborted_at_blobs (main_error s) =
     (set (stages_run (trace s))
        \<subseteq> {SetupBuildEnvironment, InstallPrerequisites, DownloadMaliBlobs})"
  by (simp add: aborted_at_blobs_def main_error_def Let_def)

lemma aborted_at_blobs_early:
  "aborted_at_blobs (s, 1) =
     (set (stages_run (trace s))
        \<subseteq> {SetupBuildEnvironment, InstallPrerequisites, DownloadMaliBlobs})"
  by (simp add: aborted_at_blobs_def)

lemma main_firmware_fails:
  assumes fw: "\<forall>h. system_rc e h (tee_line firmware_download) \<noteq> 0"
    and p: "parse_args argv default_cli = Parsed c"
    and gpu: "install_gpu_blobs (config c)"
  shows "aborted_at_blobs (main e argv)"
  unfolding main_def Let_def p parse_result.case
  apply (rule early_step[where Q=aborted_at_blobs])
   apply (simp add: aborted_at_blobs_early)
   apply (drule stagesD, simp)
  apply (rule early_step[where Q=aborted_at_blobs])
   apply (simp add: aborted_at_blobs_early)
   apply ((drule stagesD)+, simp)
  apply (rule fatal_step[where Q=aborted_at_blobs])
   apply (simp add: aborted_at_blobs_error)
   apply ((drule stagesD)+, simp)
  apply (rule fatal_step[where Q=aborted_at_blobs])
   apply (simp add: aborted_at_blobs_error)
   apply ((drule stagesD)+, simp)
  apply (rule block_step[where Q=aborted_at_blobs])
   apply (simp add: aborted_at_blobs_error)
   apply (drule gpu_blobs_block_firmware_fails[OF fw, rotated], simp add: gpu)
   apply ((drule stagesD)+, simp)
  apply (drule gpu_blobs_block_firmware_fails[OF fw, rotated], simp add: gpu)
  apply simp
  done

lemma all_ok_env_all_ok [simp]: "all_ok env_all_ok"
  "all_ok env_no_access"
  "all_ok env_firmware_wget_fails"
  by (simp_all add: all_ok_def env_all_ok_def env_firmware_wget_fails_def pipeline_wait_status_def env_commands_fail_def env_no_chdir_def env_no_fopen_def env_no_access_def)

lemma parse_args_single:
  "parse_args [''--disable-gpu''] default_cli =
     Parsed (default_cli\<lparr>config := default_config\<lparr>install_gpu_blobs := False,
        enable_opencl := False, enable_vulkan := False\<rparr>\<rparr>)"
  "parse_args [''--verify-gpu''] default_cli = Parsed (default_cli\<lparr>verify_gpu := True\<rparr>)"
  "parse_args [''--frobnicate''] default_cli = Parsed default_cli"
  "parse_args [] default_cli = Parsed default_cli"
  by (simp_all add: parse_args.simps(2) default_cli_def)

lemma log_cmd_tee_line: "length cmd \<le> 2111 \<Longrightarrow> log_cmd True cmd = tee_line cmd"
  using tee_line_fits[of cmd] by (simp add: log_cmd_def)

lemma download_mali_blobs_commandsD:
  "download_mali_blobs e cfg s = (s', r) \<Longrightarrow>
   r = 0 \<longrightarrow> tee_line firmware_download \<in> set (commands_run (trace s'))"
  by (auto simp add: download_mali_blobs_def Let_def noted_fold
      log_cmd_tee_line[OF firmware_download_length, symmetric]
      split: prod.splits if_splits
      dest!: execute_command_commands_onlyD create_directory_commandsD)

text \<open>
  C5. The firmware download is run as \<^verbatim>\<open>wget ... 2>&1 | tee -a /tmp/kernel_build.log\<close>, and
  the abort of \<^verbatim>\<open>download_mali_blobs\<close> is decided by the status that \<^verbatim>\<open>system\<close> returns for
  this pipeline, which is the status of \<^verbatim>\<open>tee\<close>. With the default arguments (GPU blobs
  enabled), where \<^verbatim>\<open>wget\<close> fails with exit status 8 and \<^verbatim>\<open>tee\<close> exits with 0, the download
  command is run, \<^verbatim>\<open>download_mali_blobs\<close> returns 0, and \<^verbatim>\<open>main\<close> goes on through the driver
  installation, the OpenCL and Vulkan setup and all the kernel stages and exits with
  status 0: the failed download does not abort the pipeline. The abort that the program
  text provides is taken where \<^verbatim>\<open>tee\<close> fails, though the download has succeeded: then
  \<^verbatim>\<open>main\<close> exits with status 1 and no stage after the blob download is run.
\<close>

theorem firmware_download_failure_masked:
  "system_rc env_firmware_wget_fails h (tee_line firmware_download) = pipeline_wait_status 8 0
   \<and> snd (download_mali_blobs env_firmware_wget_fails default_config proc_start) = 0
   \<and> tee_line firmware_download \<in>
       set (commands_run
              (trace (fst (download_mali_blobs env_firmware_wget_fails default_config
                             proc_start))))
   \<and> parse_args [] default_cli = Parsed default_cli
   \<and> install_gpu_blobs (config default_cli)
   \<and> snd (main env_firmware_wget_fails []) = 0
   \<and> stages_run (trace (fst (main env_firmware_wget_fails []))) =
       [SetupBuildEnvironment, InstallPrerequisites, DownloadMaliBlobs, InstallMaliDrivers,
        SetupOpenclSupport, SetupVulkanSupport, DownloadKernelSource,
        DownloadUbuntuRockchipPatches, ConfigureKernel, BuildKernel, InstallKernel]
   \<and> system_rc env_firmware_tee_fails h (tee_line firmware_download) = pipeline_wait_status 0 1
   \<and> snd (main env_firmware_tee_fails []) = 1
   \<and> set (stages_run (trace (fst (main env_firmware_tee_fails []))))
       \<subseteq> {SetupBuildEnvironment, InstallPrerequisites, DownloadMaliBlobs}"
proof -
  have rc: "system_rc env_firmware_wget_fails h (tee_line firmware_download) =
      pipeline_wait_status 8 0"
    by (simp add: env_firmware_wget_fails_def)
  have blobs: "snd (download_mali_blobs env_firmware_wget_fails default_config proc_start) = 0"
    by (simp add: all_ok_env_all_ok(3))
  have ran: "tee_line firmware_download \<in>
       set (commands_run
              (trace (fst (download_mali_blobs env_firmware_wget_fails default_config
                             proc_start))))"
  proof -
    obtain s' where d: "download_mali_blobs env_firmware_wget_fails default_config proc_start =
        (s', 0)"
      using blobs by (cases "download_mali_blobs env_firmware_wget_fails default_config proc_start")
        simp
    from download_mali_blobs_commandsD[OF d] d show ?thesis by simp
  qed
  have gpu: "install_gpu_blobs (config default_cli)"
    by (simp add: default_cli_def default_config_def)
  have ok: "snd (main env_firmware_wget_fails []) = 0"
    by (rule main_ok[OF all_ok_env_all_ok(3) parse_args_single(4)])
  have plan: "planned_stages default_cli =
      [SetupBuildEnvironment, InstallPrerequisites, DownloadMaliBlobs, InstallMaliDrivers,
       SetupOpenclSupport, SetupVulkanSupport, DownloadKernelSource,
       DownloadUbuntuRockchipPatches, ConfigureKernel, BuildKernel, InstallKernel]"
    by (simp add: planned_stages_def fatal_stages_def gpu_stages_def default_cli_def
        default_config_def)
  have stages: "stages_run (trace (fst (main env_firmware_wget_fails []))) =
      planned_stages default_cli"
    using main_outcome[OF parse_args_single(4), of env_firmware_wget_fails] ok
    by (simp add: outcome_ok_def)
  have rc': "system_rc env_firmware_tee_fails h (tee_line firmware_download) =
      pipeline_wait_status 0 1"
    by (simp add: env_firmware_tee_fails_def)
  have fw: "\<forall>h. system_rc env_firmware_tee_fails h (tee_line firmware_download) \<noteq> 0"
    by (simp add: env_firmware_tee_fails_def pipeline_wait_status_def)
  have abort: "aborted_at_blobs (main env_firmware_tee_fails [])"
    by (rule main_firmware_fails[OF fw parse_args_single(4) gpu])
  show ?thesis
    using rc blobs ran parse_args_single(4) gpu ok stages plan rc' abort
    by (simp add: aborted_at_blobs_def)
qed

section \<open>The run without the GPU block\<close>

text \<open>
  C8. When the GPU-blob flag is off in the parsed configuration, whatever the OpenCL and
  Vulkan flags are: the block of the four GPU stages leaves the process as it is; no run
  of \<^verbatim>\<open>main\<close> executes the blob download, the driver installation, the OpenCL setup or
  the Vulkan setup, and every line that a run hands to \<^verbatim>\<open>system\<close> is a command of the
  environment setup, the prerequisite installation, the kernel source or patch download,
  the configuration, the compilation, the installation (none of these with
  \<^verbatim>\<open>--no-install\<close>) or the cleanup (none of these without \<^verbatim>\<open>--cleanup\<close>); the exit status
  is 0 or 1. A run that ends with status 0 has executed, in order, the environment
  setup, the prerequisite installation, the kernel source download, the patch download,
  the configuration, the compilation, the installation unless \<^verbatim>\<open>--no-install\<close> was given,
  and the cleanup when requested, and the lines it has handed to \<^verbatim>\<open>system\<close> are exactly
  the commands of these stages, in order; the upstream clone is among them only where
  \<^verbatim>\<open>system\<close> does not return 0 for every run of the vendor clone, and \<^verbatim>\<open>make defconfig\<close>
  only where it does not return 0 for every run of \<^verbatim>\<open>make\<close> of the configured defconfig.
  And the run does end with status 0 whenever the steps that are fatal to it
  succeed: the user is root, \<^verbatim>\<open>/etc/debian_version\<close> exists, the build directory exists or
  can be created and it and the kernel directory can be entered, and \<^verbatim>\<open>system\<close> returns 0
  for \<^verbatim>\<open>apt update\<close>, the package installation, one of the two kernel clones, one of the
  two defconfig commands, the three \<^verbatim>\<open>make\<close> commands of the compilation and, unless
  \<^verbatim>\<open>--no-install\<close> was given, \<^verbatim>\<open>make modules_install\<close> and the copy of the kernel image.
\<close>

theorem disabled_gpu_skips_gpu_stages:
  "parse_args argv default_cli = Parsed c \<and> \<not> install_gpu_blobs (config c) \<longrightarrow>
     gpu_blobs_block e (default_jobs (nprocessors_onln e) (config c)) s = (s, False)
     \<and> DownloadMaliBlobs \<notin> set (stages_run (trace (fst (main e argv))))
     \<and> InstallMaliDrivers \<notin> set (stages_run (trace (fst (main e argv))))
     \<and> SetupOpenclSupport \<notin> set (stages_run (trace (fst (main e argv))))
     \<and> SetupVulkanSupport \<notin> set (stages_run (trace (fst (main e argv))))
     \<and> set (commands_run (trace (fst (main e argv)))) \<subseteq>
         set (kernel_commands c (default_jobs (nprocessors_onln e) (config c)) True True)
     \<and> (snd (main e argv) = 0 \<or> snd (main e argv) = 1)
     \<and> (snd (main e argv) = 0 \<longrightarrow>
          stages_run (trace (fst (main e argv))) =
            [SetupBuildEnvironment, InstallPrerequisites, DownloadKernelSource,
             DownloadUbuntuRockchipPatches, ConfigureKernel, BuildKernel] @
            (if no_install c then [] else [InstallKernel]) @
            (if cleanup c then [CleanupBuild] else [])
          \<and> (\<exists>clone_fallback defconfig_fallback.
                commands_run (trace (fst (main e argv))) =
                  kernel_commands c (default_jobs (nprocessors_onln e) (config c))
                    clone_fallback defconfig_fallback
                \<and> (clone_fallback \<longrightarrow> \<not> succeeds e vendor_kernel_clone)
                \<and> (defconfig_fallback \<longrightarrow>
                     \<not> succeeds e
                         (defconfig_command (default_jobs (nprocessors_onln e) (config c))))))
     \<and> (kernel_steps_succeed e c (default_jobs (nprocessors_onln e) (config c)) \<longrightarrow>
          snd (main e argv) = 0)"
proof (intro impI, elim conjE)
  assume p: "parse_args argv default_cli = Parsed c" and off: "\<not> install_gpu_blobs (config c)"
  let ?cfg = "default_jobs (nprocessors_onln e) (config c)"
  have planned: "planned_stages c =
      [SetupBuildEnvironment, InstallPrerequisites, DownloadKernelSource,
       DownloadUbuntuRockchipPatches, ConfigureKernel, BuildKernel] @
      (if no_install c then [] else [InstallKernel]) @
      (if cleanup c then [CleanupBuild] else [])"
    using off by (simp add: planned_stages_def fatal_stages_def gpu_stages_def)
  have sub: "set (fatal_stages c) \<subseteq> set (planned_stages c)"
    by (simp add: planned_stages_def)
  have none: "DownloadMaliBlobs \<notin> set (planned_stages c)"
    "InstallMaliDrivers \<notin> set (planned_stages c)"
    "SetupOpenclSupport \<notin> set (planned_stages c)"
    "SetupVulkanSupport \<notin> set (planned_stages c)"
    by (simp_all add: planned)
  have inside: "set (stages_run (trace (fst (main e argv)))) \<subseteq> set (planned_stages c)"
    using main_outcome[OF p, of e] sub by (auto simp add: outcome_ok_def)
  have block: "gpu_blobs_block e ?cfg s = (s, False)"
    using off by (simp add: gpu_blobs_block_off)
  have banners: "DownloadMaliBlobs \<notin> set (stages_run (trace (fst (main e argv))))
     \<and> InstallMaliDrivers \<notin> set (stages_run (trace (fst (main e argv))))
     \<and> SetupOpenclSupport \<notin> set (stages_run (trace (fst (main e argv))))
     \<and> SetupVulkanSupport \<notin> set (stages_run (trace (fst (main e argv))))"
    using inside none by auto
  have status: "snd (main e argv) = 0 \<or> snd (main e argv) = 1"
    using main_outcome[OF p, of e] by (simp add: outcome_ok_def)
  have stages: "snd (main e argv) = 0 \<longrightarrow>
      stages_run (trace (fst (main e argv))) =
        [SetupBuildEnvironment, InstallPrerequisites, DownloadKernelSource,
         DownloadUbuntuRockchipPatches, ConfigureKernel, BuildKernel] @
        (if no_install c then [] else [InstallKernel]) @
        (if cleanup c then [CleanupBuild] else [])"
    using main_outcome[OF p, of e] planned by (simp add: outcome_ok_def)
  have commands: "snd (main e argv) = 0 \<longrightarrow>
      (\<exists>clone_fallback defconfig_fallback.
         commands_run (trace (fst (main e argv))) =
           kernel_commands c ?cfg clone_fallback defconfig_fallback
         \<and> (clone_fallback \<longrightarrow> \<not> succeeds e vendor_kernel_clone)
         \<and> (defconfig_fallback \<longrightarrow> \<not> succeeds e (defconfig_command ?cfg)))"
    using main_kernel_outcome[OF p off, of e] by (simp add: kernel_outcome_def)
  have succeed: "kernel_steps_succeed e c ?cfg \<longrightarrow> snd (main e argv) = 0"
    using main_kernel_steps_succeed[OF p off, of e] by blast
  from block banners main_only_kernel_commands[OF p off, of e] status stages commands succeed
  show "gpu_blobs_block e (default_jobs (nprocessors_onln e) (config c)) s = (s, False)
     \<and> DownloadMaliBlobs \<notin> set (stages_run (trace (fst (main e argv))))
     \<and> InstallMaliDrivers \<notin> set (stages_run (trace (fst (main e argv))))
     \<and> SetupOpenclSupport \<notin> set (stages_run (trace (fst (main e argv))))
     \<and> SetupVulkanSupport \<notin> set (stages_run (trace (fst (main e argv))))
     \<and> set (commands_run (trace (fst (main e argv)))) \<subseteq>
         set (kernel_commands c (default_jobs (nprocessors_onln e) (config c)) True True)
     \<and> (snd (main e argv) = 0 \<or> snd (main e argv) = 1)
     \<and> (snd (main e argv) = 0 \<longrightarrow>
          stages_run (trace (fst (main e argv))) =
            [SetupBuildEnvironment, InstallPrerequisites, DownloadKernelSource,
             DownloadUbuntuRockchipPatches, ConfigureKernel, BuildKernel] @
            (if no_install c then [] else [InstallKernel]) @
            (if cleanup c then [CleanupBuild] else [])
          \<and> (\<exists>clone_fallback defconfig_fallback.
                commands_run (trace (fst (main e argv))) =
                  kernel_commands c (default_jobs (nprocessors_onln e) (config c))
                    clone_fallback defconfig_fallback
                \<and> (clone_fallback \<longrightarrow> \<not> succeeds e vendor_kernel_clone)
                \<and> (defconfig_fallback \<longrightarrow>
                     \<not> succeeds e
                         (defconfig_command (default_jobs (nprocessors_onln e) (config c))))))
     \<and> (kernel_steps_succeed e c (default_jobs (nprocessors_onln e) (config c)) \<longrightarrow>
          snd (main e argv) = 0)"
    by blast
qed

lemma succeeds_env_all_ok [simp]: "succeeds env_all_ok cmd"
  by (simp add: succeeds_def env_all_ok_def)

lemma kernel_steps_succeed_env_all_ok [simp]: "kernel_steps_succeed env_all_ok c cfg"
  by (simp add: kernel_steps_succeed_def) (simp add: env_all_ok_def)

lemma decimal_literal_8: "decimal_literal 8 = ''8''"
  by code_simp

lemma kernel_commands_example:
  "kernel_commands
     (default_cli\<lparr>config := default_config\<lparr>clean_build := True, install_gpu_blobs := False,
        enable_opencl := False, enable_vulkan := False\<rparr>\<rparr>)
     (default_jobs 8 (default_config\<lparr>clean_build := True, install_gpu_blobs := False,
        enable_opencl := False, enable_vulkan := False\<rparr>)) False False =
   map (log_cmd True)
     [''apt update'', install_command,
      ''apt build-dep -y linux linux-image-unsigned-$(uname -r)'',
      vendor_kernel_clone, patches_clone,
      ''make mrproper'', ''make rockchip_linux_defconfig'', ''make olddefconfig'',
      ''make -j8 Image'', ''make -j8 dtbs'', ''make -j8 modules'',
      ''make modules_install'', ''make dtbs_install'',
      ''cp arch/arm64/boot/Image /boot/vmlinuz-6.8.0-opi5plus-mali'',
      ''cp System.map /boot/System.map-6.8.0-opi5plus-mali'',
      ''cp .config /boot/config-6.8.0-opi5plus-mali'',
      ''update-initramfs -c -k 6.8.0-opi5plus-mali'', ''u-boot-update'']"
  by (simp add: kernel_commands_def prerequisite_commands_def source_commands_def
      configure_commands_def build_commands_def install_commands_def defconfig_command_def
      copy_image_command_def default_jobs_def int_of_long_def default_config_def default_cli_def
      snprintf_def MAX_CMD_LEN_def decimal_literal_8)

lemma parse_args_disable_gpu_clean:
  "parse_args [''--disable-gpu'', ''--clean''] default_cli =
     Parsed (default_cli\<lparr>config := default_config\<lparr>clean_build := True,
        install_gpu_blobs := False, enable_opencl := False, enable_vulkan := False\<rparr>\<rparr>)"
  by (simp add: parse_args.simps(2) default_cli_def)


theorem disabled_gpu_skips_gpu_stages_witness:
  "parse_args [''--disable-gpu'', ''--clean''] default_cli =
     Parsed (default_cli\<lparr>config := default_config\<lparr>clean_build := True,
        install_gpu_blobs := False, enable_opencl := False, enable_vulkan := False\<rparr>\<rparr>)
   \<and> \<not> install_gpu_blobs (config (default_cli\<lparr>config := default_config\<lparr>clean_build := True,
        install_gpu_blobs := False, enable_opencl := False, enable_vulkan := False\<rparr>\<rparr>))
   \<and> kernel_steps_succeed env_all_ok
        (default_cli\<lparr>config := default_config\<lparr>clean_build := True,
           install_gpu_blobs := False, enable_opencl := False, enable_vulkan := False\<rparr>\<rparr>)
        (default_jobs (nprocessors_onln env_all_ok)
           (default_config\<lparr>clean_build := True,
              install_gpu_blobs := False, enable_opencl := False, enable_vulkan := False\<rparr>))
   \<and> snd (main env_all_ok [''--disable-gpu'', ''--clean'']) = 0
   \<and> stages_run (trace (fst (main env_all_ok [''--disable-gpu'', ''--clean'']))) =
       [SetupBuildEnvironment, InstallPrerequisites, DownloadKernelSource,
        DownloadUbuntuRockchipPatches, ConfigureKernel, BuildKernel, InstallKernel]
   \<and> commands_run (trace (fst (main env_all_ok [''--disable-gpu'', ''--clean'']))) =
       map (log_cmd True)
         [''apt update'', install_command,
          ''apt build-dep -y linux linux-image-unsigned-$(uname -r)'',
          vendor_kernel_clone, patches_clone,
          ''make mrproper'', ''make rockchip_linux_defconfig'', ''make olddefconfig'',
          ''make -j8 Image'', ''make -j8 dtbs'', ''make -j8 modules'',
          ''make modules_install'', ''make dtbs_install'',
          ''cp arch/arm64/boot/Image /boot/vmlinuz-6.8.0-opi5plus-mali'',
          ''cp System.map /boot/System.map-6.8.0-opi5plus-mali'',
          ''cp .config /boot/config-6.8.0-opi5plus-mali'',
          ''update-initramfs -c -k 6.8.0-opi5plus-mali'', ''u-boot-update'']"
proof -
  let ?c = "default_cli\<lparr>config := default_config\<lparr>clean_build := True,
        install_gpu_blobs := False, enable_opencl := False, enable_vulkan := False\<rparr>\<rparr>"
  have p: "parse_args [''--disable-gpu'', ''--clean''] default_cli = Parsed ?c"
    by (rule parse_args_disable_gpu_clean)
  have off: "\<not> install_gpu_blobs (config ?c)"
    by simp
  have cfg: "config ?c = default_config\<lparr>clean_build := True,
        install_gpu_blobs := False, enable_opencl := False, enable_vulkan := False\<rparr>"
    by simp
  have np: "nprocessors_onln env_all_ok = 8"
    by (simp add: env_all_ok_def)
  have flags: "\<not> no_install ?c" "\<not> cleanup ?c"
    by (simp_all add: default_cli_def)
  have ok: "kernel_steps_succeed env_all_ok ?c (default_jobs (nprocessors_onln env_all_ok) (config ?c))"
    by (rule kernel_steps_succeed_env_all_ok)
  from disabled_gpu_skips_gpu_stages
         [of "[''--disable-gpu'', ''--clean'']" ?c env_all_ok proc_start] p off ok
  have run: "snd (main env_all_ok [''--disable-gpu'', ''--clean'']) = 0"
    and st: "snd (main env_all_ok [''--disable-gpu'', ''--clean'']) = 0 \<longrightarrow>
      stages_run (trace (fst (main env_all_ok [''--disable-gpu'', ''--clean'']))) =
        [SetupBuildEnvironment, InstallPrerequisites, DownloadKernelSource,
         DownloadUbuntuRockchipPatches, ConfigureKernel, BuildKernel] @
        (if no_install ?c then [] else [InstallKernel]) @
        (if cleanup ?c then [CleanupBuild] else [])"
    and cm: "snd (main env_all_ok [''--disable-gpu'', ''--clean'']) = 0 \<longrightarrow>
      (\<exists>clone_fallback defconfig_fallback.
         commands_run (trace (fst (main env_all_ok [''--disable-gpu'', ''--clean'']))) =
           kernel_commands ?c (default_jobs (nprocessors_onln env_all_ok) (config ?c))
             clone_fallback defconfig_fallback
         \<and> (clone_fallback \<longrightarrow> \<not> succeeds env_all_ok vendor_kernel_clone)
         \<and> (defconfig_fallback \<longrightarrow>
              \<not> succeeds env_all_ok
                  (defconfig_command (default_jobs (nprocessors_onln env_all_ok) (config ?c)))))"
    by blast+
  from cm run have "commands_run (trace (fst (main env_all_ok [''--disable-gpu'', ''--clean'']))) =
      kernel_commands ?c (default_jobs (nprocessors_onln env_all_ok) (config ?c)) False False"
    by (auto simp only: succeeds_env_all_ok)
  then have c1: "commands_run (trace (fst (main env_all_ok [''--disable-gpu'', ''--clean'']))) =
      map (log_cmd True)
         [''apt update'', install_command,
          ''apt build-dep -y linux linux-image-unsigned-$(uname -r)'',
          vendor_kernel_clone, patches_clone,
          ''make mrproper'', ''make rockchip_linux_defconfig'', ''make olddefconfig'',
          ''make -j8 Image'', ''make -j8 dtbs'', ''make -j8 modules'',
          ''make modules_install'', ''make dtbs_install'',
          ''cp arch/arm64/boot/Image /boot/vmlinuz-6.8.0-opi5plus-mali'',
          ''cp System.map /boot/System.map-6.8.0-opi5plus-mali'',
          ''cp .config /boot/config-6.8.0-opi5plus-mali'',
          ''update-initramfs -c -k 6.8.0-opi5plus-mali'', ''u-boot-update'']"
    unfolding cfg np kernel_commands_example .
  from st run flags have s1: "stages_run (trace (fst (main env_all_ok [''--disable-gpu'', ''--clean'']))) =
       [SetupBuildEnvironment, InstallPrerequisites, DownloadKernelSource,
        DownloadUbuntuRockchipPatches, ConfigureKernel, BuildKernel, InstallKernel]"
    by simp
  from p off ok run s1 c1 show ?thesis
    unfolding cfg by blast
qed

section \<open>The verification\<close>

text \<open>
  C9. \<^verbatim>\<open>verify_gpu_installation\<close> returns -1 when the firmware file or the driver
  library is missing. In every run of \<^verbatim>\<open>main\<close> in which the verification is executed
  (it is executed only after all the fatal stages before it have succeeded) the exit
  status is 0, whatever the verification returned.
\<close>

theorem verification_failure_not_fatal:
  "(let h = trace s @ [Log ''INFO'' ''Verifying Mali GPU installation...''] in
      \<not> access_ok e h ''/lib/firmware/mali_csffw.bin'' \<or> \<not> access_ok e h standard_driver_lib
        \<longrightarrow> snd (verify_gpu_installation e s) = - 1)
   \<and> (VerifyGpuInstallation \<in> set (stages_run (trace (fst (main e argv)))) \<longrightarrow>
        snd (main e argv) = 0)"
proof -
  have a: "let h = trace s @ [Log ''INFO'' ''Verifying Mali GPU installation...''] in
      \<not> access_ok e h ''/lib/firmware/mali_csffw.bin'' \<or> \<not> access_ok e h standard_driver_lib
        \<longrightarrow> snd (verify_gpu_installation e s) = - 1"
    by (simp add: verify_gpu_installation_def Let_def)
  have b: "snd (main e argv) = 0"
    if v: "VerifyGpuInstallation \<in> set (stages_run (trace (fst (main e argv))))"
  proof (cases "parse_args argv default_cli")
    case Help
    then show ?thesis by (simp add: main_def)
  next
    case (Parsed c)
    have "VerifyGpuInstallation \<notin> set (fatal_stages c)"
      by (simp add: fatal_stages_def gpu_stages_def)
    with main_outcome[OF Parsed, of e] v show ?thesis
      by (auto simp add: outcome_ok_def)
  qed
  from a b show ?thesis by blast
qed

theorem verification_failure_not_fatal_witness:
  "\<not> access_ok env_no_access
        (trace proc_start @ [Log ''INFO'' ''Verifying Mali GPU installation...''])
        ''/lib/firmware/mali_csffw.bin''
   \<and> (\<forall>s. snd (verify_gpu_installation env_no_access s) = - 1)
   \<and> VerifyGpuInstallation \<in>
       set (stages_run (trace (fst (main env_no_access
                                      [''--verify-gpu'']))))
   \<and> snd (main env_no_access [''--verify-gpu'']) = 0"
proof -
  let ?e = env_no_access
  have ok: "snd (main ?e [''--verify-gpu'']) = 0"
    by (rule main_ok[OF all_ok_env_all_ok(2) parse_args_single(2)])
  have "stages_run (trace (fst (main ?e [''--verify-gpu'']))) =
      planned_stages (default_cli\<lparr>verify_gpu := True\<rparr>)"
    using main_outcome[OF parse_args_single(2), of ?e] ok by (simp add: outcome_ok_def)
  then have ran: "VerifyGpuInstallation \<in>
      set (stages_run (trace (fst (main ?e [''--verify-gpu'']))))"
    by (simp add: planned_stages_def default_cli_def default_config_def)
  have closed: "\<not> access_ok ?e h path" for h path
    by (simp add: env_all_ok_def env_firmware_tee_fails_def env_command_fails_tee_ok_def env_commands_fail_def env_no_chdir_def env_no_fopen_def env_no_access_def)
  show ?thesis
    using verification_failure_not_fatal [of s ?e "[''--verify-gpu'']" for s] ran closed
    by (simp add: Let_def)
qed

section \<open>A token that is no flag\<close>

text \<open>
  C2. The code at the input \<^verbatim>\<open>--frobnicate\<close>, a token that is no flag of the builder:
  the argument loop ends with the default configuration and reports nothing, \<^verbatim>\<open>main\<close>
  behaves as with no argument at all, and in an environment where every command succeeds
  it runs every stage and exits with status 0.
\<close>

theorem unrecognized_token_is_ignored:
  "parse_args [''--frobnicate''] default_cli = Parsed default_cli
   \<and> main e [''--frobnicate''] = main e []
   \<and> snd (main env_all_ok [''--frobnicate'']) = 0
   \<and> stages_run (trace (fst (main env_all_ok [''--frobnicate'']))) =
       [SetupBuildEnvironment, InstallPrerequisites, DownloadMaliBlobs, InstallMaliDrivers,
        SetupOpenclSupport, SetupVulkanSupport, DownloadKernelSource,
        DownloadUbuntuRockchipPatches, ConfigureKernel, BuildKernel, InstallKernel]"
proof -
  have same: "main e [''--frobnicate''] = main e []"
    by (simp only: main_def parse_args_single)
  have ok: "snd (main env_all_ok [''--frobnicate'']) = 0"
    by (rule main_ok[OF all_ok_env_all_ok(1) parse_args_single(3)])
  have ran: "stages_run (trace (fst (main env_all_ok [''--frobnicate'']))) =
      planned_stages default_cli"
    using main_outcome[OF parse_args_single(3), of env_all_ok] ok
    by (simp add: outcome_ok_def)
  have plan: "planned_stages default_cli =
      [SetupBuildEnvironment, InstallPrerequisites, DownloadMaliBlobs, InstallMaliDrivers,
       SetupOpenclSupport, SetupVulkanSupport, DownloadKernelSource,
       DownloadUbuntuRockchipPatches, ConfigureKernel, BuildKernel, InstallKernel]"
    by (simp add: planned_stages_def fatal_stages_def gpu_stages_def default_cli_def
        default_config_def)
  show ?thesis
    using parse_args_single(3) same ok ran plan by simp
qed

end
